theory Spec2Isabelle
  imports Main "HOL-Library.AList"
begin

section \<open>JavaScript values handled by server.js\<close>

text \<open>
  The handlers of \<^verbatim>\<open>Ostad-Capstone-Backend/server.js\<close> receive a request body that
  \<^verbatim>\<open>express.json()\<close> has parsed, hand it to the MongoDB driver, and serialise it with
  \<^verbatim>\<open>JSON.stringify\<close>. The values are those of JSON, and the \<^verbatim>\<open>ObjectId\<close> that the
  MongoDB driver assigns as \<^verbatim>\<open>_id\<close> (identified by its 24-digit hexadecimal string).
  An object keeps the order of its properties.

  The handlers never compute with a number of a body: they test it for truthiness,
  convert it to a string in a template literal, and serialise it. A number is therefore
  represented by the string that \<^verbatim>\<open>String(n)\<close> yields, such as \<^verbatim>\<open>90\<close>, \<^verbatim>\<open>1.5\<close>,
  \<^verbatim>\<open>1e+21\<close> or \<^verbatim>\<open>Infinity\<close>. Every number has exactly one such string; only \<open>0\<close> and
  \<open>-0\<close> share theirs, and no handler tells these two apart.
\<close>

datatype js_value =
    JNull
  | JBool bool
  | JNum string
  | JStr string
  | JArr "js_value list"
  | JObj "(string \<times> js_value) list"
  | JOid string

type_synonym obj = "(string \<times> js_value) list"

type_synonym 'a result = "string + 'a"

text \<open>Reading a property, \<^verbatim>\<open>o.k\<close>: \<open>None\<close> is \<^verbatim>\<open>undefined\<close>.\<close>

definition get_prop :: "obj \<Rightarrow> string \<Rightarrow> js_value option" where
  "get_prop ob k = map_of ob k"

text \<open>
  \<^verbatim>\<open>ToBoolean\<close>, as used by \<^verbatim>\<open>!x\<close>: \<^verbatim>\<open>undefined\<close>, \<^verbatim>\<open>null\<close>, \<^verbatim>\<open>false\<close>, the numbers
  \<open>0\<close>, \<open>-0\<close> and NaN, and the empty string are falsy; every other number and string,
  and every array and object, is truthy.
\<close>

fun truthy :: "js_value option \<Rightarrow> bool" where
  "truthy None = False"
| "truthy (Some JNull) = False"
| "truthy (Some (JBool b)) = b"
| "truthy (Some (JNum n)) = (n \<noteq> ''0'' \<and> n \<noteq> ''NaN'')"
| "truthy (Some (JStr s)) = (s \<noteq> [])"
| "truthy (Some (JArr xs)) = True"
| "truthy (Some (JObj kvs)) = True"
| "truthy (Some (JOid h)) = True"

subsection \<open>String conversion in a template literal\<close>

fun join_comma :: "string list \<Rightarrow> string" where
  "join_comma [] = []"
| "join_comma [s] = s"
| "join_comma (s # t # ss) = s @ CHR '','' # join_comma (t # ss)"

text \<open>The conversions of the elements of an array, up to the first that throws.\<close>

fun collect :: "string result list \<Rightarrow> string list result" where
  "collect [] = Inr []"
| "collect (Inl e # rs) = Inl e"
| "collect (Inr s # rs) = (case collect rs of Inl e \<Rightarrow> Inl e | Inr ss \<Rightarrow> Inr (s # ss))"

text \<open>
  \<^verbatim>\<open>`${v}`\<close>: a string is itself, a number its string, an array its elements joined by
  commas (with \<^verbatim>\<open>null\<close> as the empty string), an ObjectId its hexadecimal string. An
  object of a parsed body is converted by \<^verbatim>\<open>Object.prototype.toString\<close> to
  \<^verbatim>\<open>[object Object]\<close>, unless it has a property \<^verbatim>\<open>toString\<close> of its own: that property
  is not a function, \<^verbatim>\<open>valueOf\<close> yields no primitive value either, and the conversion
  throws a TypeError (\<open>Inl\<close>).
\<close>

fun ToString :: "js_value \<Rightarrow> string result" where
  "ToString JNull = Inr ''null''"
| "ToString (JBool b) = Inr (if b then ''true'' else ''false'')"
| "ToString (JNum n) = Inr n"
| "ToString (JStr s) = Inr s"
| "ToString (JArr xs) =
     (case collect (map (\<lambda>x. if x = JNull then Inr [] else ToString x) xs) of
        Inl e \<Rightarrow> Inl e
      | Inr ss \<Rightarrow> Inr (join_comma ss))"
| "ToString (JObj kvs) =
     (if ''toString'' \<in> fst ` set kvs then Inl ''Cannot convert object to primitive value''
      else Inr ''[object Object]'')"
| "ToString (JOid h) = Inr h"

subsection \<open>JSON.stringify and JSON.parse\<close>

text \<open>
  \<^verbatim>\<open>JSON.parse (JSON.stringify v)\<close> is \<open>v\<close> with every ObjectId replaced by its
  hexadecimal string (\<^verbatim>\<open>ObjectId.prototype.toJSON\<close>) and every number that is not
  finite replaced by \<^verbatim>\<open>null\<close>.
\<close>

primrec toJSON :: "js_value \<Rightarrow> js_value" where
  "toJSON JNull = JNull"
| "toJSON (JBool b) = JBool b"
| "toJSON (JNum n) =
     (if n = ''Infinity'' \<or> n = ''-Infinity'' \<or> n = ''NaN'' then JNull else JNum n)"
| "toJSON (JStr s) = JStr s"
| "toJSON (JArr xs) = JArr (map toJSON xs)"
| "toJSON (JObj kvs) = JObj (map (map_prod id toJSON) kvs)"
| "toJSON (JOid h) = JStr h"

text \<open>
  A string value as the handlers use it: they only test it for truthiness, pass it to
  \<^verbatim>\<open>JSON.parse\<close>, or obtain it from \<^verbatim>\<open>JSON.stringify\<close>. It is therefore classified
  by what \<^verbatim>\<open>JSON.parse\<close> makes of it: the JSON text of a value, the empty string, or
  any other text, on which \<^verbatim>\<open>JSON.parse\<close> throws a SyntaxError.
\<close>

datatype json_text = Serialized js_value | Empty_string | Malformed

definition JSON_stringify :: "js_value \<Rightarrow> json_text" where
  "JSON_stringify v = Serialized (toJSON v)"

fun JSON_parse :: "json_text \<Rightarrow> js_value result" where
  "JSON_parse (Serialized v) = Inr v"
| "JSON_parse Empty_string = Inl ''Unexpected end of JSON input''"
| "JSON_parse Malformed = Inl ''Unexpected token''"

section \<open>Configuration\<close>

text \<open>
  \<^verbatim>\<open>const CACHE_TTL = parseInt(process.env.CACHE_TTL) || 600;\<close>

  What \<^verbatim>\<open>parseInt\<close> returns is NaN, an integer that is a double, or an infinity.
\<close>

datatype number = NaN | Finite int | PosInfinity | NegInfinity

text \<open>
  The environment variable is a string, given by its bytes in UTF-8, or \<^verbatim>\<open>undefined\<close>
  (\<open>None\<close>), which \<^verbatim>\<open>parseInt\<close> converts to the string \<^verbatim>\<open>undefined\<close>. \<^verbatim>\<open>parseInt\<close>
  skips leading white space and line terminators, reads a sign, takes radix 16 after
  \<^verbatim>\<open>0x\<close> and radix 10 otherwise, and converts the longest prefix of digits; with no
  digit the result is NaN. The integer read is rounded to the nearest double, ties to
  the even significand, and is an infinity when that rounding reaches \<open>2 ^ 1024\<close>.

  \<open>white_bytes s\<close> is the number of bytes of the white space character or line
  terminator at the head of \<open>s\<close>, or 0: TAB, LF, VT, FF, CR, SP, and U+00A0, U+1680,
  U+2000 to U+200A, U+2028, U+2029, U+202F, U+205F, U+3000, U+FEFF.
\<close>

definition white_bytes :: "string \<Rightarrow> nat" where
  "white_bytes s =
     (case map of_char s :: nat list of
        [] \<Rightarrow> 0
      | a # r \<Rightarrow>
          if a \<in> {0x09, 0x0A, 0x0B, 0x0C, 0x0D, 0x20} then 1
          else (case r of
            [] \<Rightarrow> 0
          | b # r' \<Rightarrow>
              if a = 0xC2 \<and> b = 0xA0 then 2
              else (case r' of
                [] \<Rightarrow> 0
              | c # r'' \<Rightarrow>
                  if a = 0xE1 \<and> b = 0x9A \<and> c = 0x80 then 3
                  else if a = 0xE2 \<and> b = 0x80 \<and> (0x80 \<le> c \<and> c \<le> 0x8A \<or> c \<in> {0xA8, 0xA9, 0xAF}) then 3
                  else if a = 0xE2 \<and> b = 0x81 \<and> c = 0x9F then 3
                  else if a = 0xE3 \<and> b = 0x80 \<and> c = 0x80 then 3
                  else if a = 0xEF \<and> b = 0xBB \<and> c = 0xBF then 3
                  else 0)))"

function skip_white :: "string \<Rightarrow> string" where
  "skip_white s = (if white_bytes s = 0 then s else skip_white (drop (white_bytes s) s))"
  by pat_completeness auto
termination
proof (relation "measure length")
  fix s :: string
  assume "white_bytes s \<noteq> 0"
  then have "s \<noteq> []"
    by (auto simp: white_bytes_def)
  with \<open>white_bytes s \<noteq> 0\<close> show "(drop (white_bytes s) s, s) \<in> measure length"
    by simp
qed simp

declare skip_white.simps [simp del]

definition digit_value :: "char \<Rightarrow> nat" where
  "digit_value c =
     (let n = (of_char c :: nat) in
      if 48 \<le> n \<and> n \<le> 57 then n - 48
      else if 97 \<le> n \<and> n \<le> 122 then n - 87
      else if 65 \<le> n \<and> n \<le> 90 then n - 55
      else 36)"

text \<open>The number of binary digits of a natural number.\<close>

fun bit_length :: "nat \<Rightarrow> nat" where
  "bit_length n = (if n = 0 then 0 else Suc (bit_length (n div 2)))"

declare bit_length.simps [simp del]

text \<open>
  The double nearest to a natural number: exact up to 53 binary digits, beyond that the
  53 leading digits rounded to nearest, ties to even; \<open>None\<close> is the overflow to
  Infinity.
\<close>

definition round_to_double :: "nat \<Rightarrow> nat option" where
  "round_to_double n =
     (if bit_length n \<le> 53 then Some n
      else
        let e = bit_length n - 53;
            q = n div 2 ^ e;
            r = n mod 2 ^ e;
            q' = (if 2 ^ (e - 1) < r \<or> (r = 2 ^ (e - 1) \<and> odd q) then q + 1 else q)
        in if 2 ^ 1024 \<le> q' * 2 ^ e then None else Some (q' * 2 ^ e))"

definition parseInt_string :: "string \<Rightarrow> number" where
  "parseInt_string inputString =
     (let s = skip_white inputString;
          negative = (case s of c # r \<Rightarrow> c = CHR ''-'' | [] \<Rightarrow> False);
          s = (case s of c # r \<Rightarrow> if c = CHR ''-'' \<or> c = CHR ''+'' then r else s | [] \<Rightarrow> s);
          hex = (case s of c # d # r \<Rightarrow> c = CHR ''0'' \<and> (d = CHR ''x'' \<or> d = CHR ''X'') | _ \<Rightarrow> False);
          R = (if hex then 16 else 10 :: nat);
          s = (if hex then drop 2 s else s);
          z = takeWhile (\<lambda>c. digit_value c < R) s
      in if z = [] then NaN
         else case round_to_double (foldl (\<lambda>acc c. acc * R + digit_value c) 0 z) of
                None \<Rightarrow> if negative then NegInfinity else PosInfinity
              | Some m \<Rightarrow> Finite (if negative then - int m else int m))"

definition parseInt :: "string option \<Rightarrow> number" where
  "parseInt v = parseInt_string (case v of None \<Rightarrow> ''undefined'' | Some s \<Rightarrow> s)"

text \<open>\<^verbatim>\<open>x || 600\<close> yields 600 when \<open>x\<close> is NaN or 0, and \<open>x\<close> otherwise.\<close>

definition CACHE_TTL :: "string option \<Rightarrow> number" where
  "CACHE_TTL env =
     (case parseInt env of NaN \<Rightarrow> Finite 600 | Finite n \<Rightarrow> if n = 0 then Finite 600 else Finite n
      | PosInfinity \<Rightarrow> PosInfinity | NegInfinity \<Rightarrow> NegInfinity)"

section \<open>The external services\<close>

text \<open>
  What a request finds outside the process: the clock of the cache server in
  milliseconds, the ObjectId the MongoDB driver would generate, and for each driver call
  of a handler whether it raises a transport or driver error (\<open>Some\<close> of the error's
  message) or is carried out (\<open>None\<close>).
\<close>

record io =
  now :: nat
  new_oid :: string
  get_error :: "string option"
  findOne_error :: "string option"
  setEx_error :: "string option"
  insertOne_error :: "string option"

text \<open>The driver calls a handler issues, in order (what a store-call counter observes).\<close>

datatype call =
    Redis_get string
  | Redis_setEx string number json_text
  | Mongo_findOne string string
  | Mongo_insertOne string obj

text \<open>
  The Cache Layer maps a key to a string and its expiry time; the Persistent Store holds
  the collections \<^verbatim>\<open>results\<close> and \<^verbatim>\<open>students\<close> in insertion order.
\<close>

record world =
  cache :: "string \<rightharpoonup> json_text \<times> nat"
  results :: "obj list"
  students :: "obj list"
  calls :: "call list"

subsection \<open>Redis\<close>

text \<open>\<^verbatim>\<open>GET key\<close>: the value of an entry that has not expired, otherwise \<^verbatim>\<open>null\<close>.\<close>

definition live_entry :: "nat \<Rightarrow> (string \<rightharpoonup> json_text \<times> nat) \<Rightarrow> string \<Rightarrow> json_text option" where
  "live_entry t m key =
     (case m key of None \<Rightarrow> None | Some (v, expiry) \<Rightarrow> if t < expiry then Some v else None)"

definition redisClient_get :: "io \<Rightarrow> string \<Rightarrow> world \<Rightarrow> json_text option result \<times> world" where
  "redisClient_get io key w =
     (let w' = w\<lparr>calls := calls w @ [Redis_get key]\<rparr> in
      case get_error io of
        Some msg \<Rightarrow> (Inl msg, w')
      | None \<Rightarrow> (Inr (live_entry (now io) (cache w) key), w'))"

text \<open>
  \<^verbatim>\<open>SETEX key seconds value\<close>: Redis answers with an error when \<open>seconds\<close> is not a
  positive integer, and otherwise stores the value, to expire \<open>seconds\<close> from now. Any
  other error reply of Redis is, like a transport error, one of \<open>setEx_error\<close>.
\<close>

definition redisClient_setEx :: "io \<Rightarrow> string \<Rightarrow> number \<Rightarrow> json_text \<Rightarrow> world \<Rightarrow> unit result \<times> world" where
  "redisClient_setEx io key seconds v w =
     (let w' = w\<lparr>calls := calls w @ [Redis_setEx key seconds v]\<rparr> in
      case setEx_error io of
        Some msg \<Rightarrow> (Inl msg, w')
      | None \<Rightarrow>
          (case seconds of
             Finite n \<Rightarrow>
               if n \<le> 0 then (Inl ''ERR invalid expire time in setex command'', w')
               else (Inr (), w'\<lparr>cache := (cache w)(key \<mapsto> (v, now io + 1000 * nat n))\<rparr>)
           | _ \<Rightarrow> (Inl ''ERR value is not an integer or out of range'', w')))"

subsection \<open>MongoDB\<close>

text \<open>
  The filter \<^verbatim>\<open>{ id: studentId }\<close> with a string: a document matches when its \<^verbatim>\<open>id\<close>
  is that string, or an array that contains it. \<^verbatim>\<open>findOne\<close> returns the first match.
\<close>

definition matches_id :: "string \<Rightarrow> obj \<Rightarrow> bool" where
  "matches_id s doc =
     (case get_prop doc ''id'' of
        Some (JStr t) \<Rightarrow> t = s
      | Some (JArr xs) \<Rightarrow> JStr s \<in> set xs
      | _ \<Rightarrow> False)"

definition results_findOne :: "io \<Rightarrow> string \<Rightarrow> world \<Rightarrow> obj option result \<times> world" where
  "results_findOne io s w =
     (let w' = w\<lparr>calls := calls w @ [Mongo_findOne ''results'' s]\<rparr> in
      case findOne_error io of
        Some msg \<Rightarrow> (Inl msg, w')
      | None \<Rightarrow> (Inr (find (matches_id s) (results w)), w'))"

text \<open>
  \<^verbatim>\<open>insertOne(doc)\<close>: the driver adds an \<^verbatim>\<open>_id\<close> to the document it is passed when the
  document has none (it assigns the property of the caller's object), the server
  refuses an \<^verbatim>\<open>_id\<close> that the collection already holds, and stores the document with
  \<^verbatim>\<open>_id\<close> as its first field. The call returns \<^verbatim>\<open>insertedId\<close>; the caller's object is
  returned with it, as the handler goes on using it.
\<close>

definition assign_id :: "string \<Rightarrow> obj \<Rightarrow> obj" where
  "assign_id oid doc =
     (if get_prop doc ''_id'' = None \<or> get_prop doc ''_id'' = Some JNull
      then AList.update ''_id'' (JOid oid) doc else doc)"

definition insertedId_of :: "string \<Rightarrow> obj \<Rightarrow> js_value" where
  "insertedId_of oid doc =
     (case get_prop doc ''_id'' of None \<Rightarrow> JOid oid | Some JNull \<Rightarrow> JOid oid | Some v \<Rightarrow> v)"

definition stored_form :: "string \<Rightarrow> obj \<Rightarrow> obj" where
  "stored_form oid doc = (''_id'', insertedId_of oid doc) # AList.delete ''_id'' doc"

definition collection_insertOne ::
  "string option \<Rightarrow> string \<Rightarrow> obj \<Rightarrow> obj list \<Rightarrow> (js_value \<times> obj \<times> obj list) result" where
  "collection_insertOne err oid doc coll =
     (case err of
        Some msg \<Rightarrow> Inl msg
      | None \<Rightarrow>
          if \<exists>d \<in> set coll. get_prop d ''_id'' = Some (insertedId_of oid doc)
          then Inl ''E11000 duplicate key error''
          else Inr (insertedId_of oid doc, assign_id oid doc, coll @ [stored_form oid doc]))"

definition results_insertOne :: "io \<Rightarrow> obj \<Rightarrow> world \<Rightarrow> (js_value \<times> obj) result \<times> world" where
  "results_insertOne io doc w =
     (let w' = w\<lparr>calls := calls w @ [Mongo_insertOne ''results'' doc]\<rparr> in
      case collection_insertOne (insertOne_error io) (new_oid io) doc (results w) of
        Inl msg \<Rightarrow> (Inl msg, w')
      | Inr (insertedId, doc', coll') \<Rightarrow> (Inr (insertedId, doc'), w'\<lparr>results := coll'\<rparr>))"

definition students_insertOne :: "io \<Rightarrow> obj \<Rightarrow> world \<Rightarrow> (js_value \<times> obj) result \<times> world" where
  "students_insertOne io doc w =
     (let w' = w\<lparr>calls := calls w @ [Mongo_insertOne ''students'' doc]\<rparr> in
      case collection_insertOne (insertOne_error io) (new_oid io) doc (students w) of
        Inl msg \<Rightarrow> (Inl msg, w')
      | Inr (insertedId, doc', coll') \<Rightarrow> (Inr (insertedId, doc'), w'\<lparr>students := coll'\<rparr>))"

section \<open>The routes\<close>

text \<open>\<^verbatim>\<open>res.status(code).json(v)\<close> sends \<^verbatim>\<open>JSON.stringify(v)\<close>.\<close>

record response =
  status :: nat
  body :: json_text

definition res_json :: "nat \<Rightarrow> js_value \<Rightarrow> response" where
  "res_json code v = \<lparr>status = code, body = JSON_stringify v\<rparr>"

definition error_body :: "string \<Rightarrow> js_value" where
  "error_body msg = JObj [(''error'', JStr msg)]"

text \<open>
  \<^verbatim>\<open>`result:${x}`\<close>, where \<open>x\<close> may be \<^verbatim>\<open>undefined\<close>; the conversion of \<open>x\<close> may
  throw.
\<close>

definition result_key :: "js_value option \<Rightarrow> string result" where
  "result_key x =
     (case x of
        None \<Rightarrow> Inr ''result:undefined''
      | Some v \<Rightarrow> (case ToString v of Inl e \<Rightarrow> Inl e | Inr s \<Rightarrow> Inr (''result:'' @ s)))"

subsection \<open>GET /result/:id\<close>

text \<open>
  Lines 148 to 162 of the handler, after a cache miss. The route parameter
  \<open>studentId\<close> is a string, so that \<^verbatim>\<open>`result:${studentId}`\<close> is the concatenation.
\<close>

definition GET_result_miss :: "string option \<Rightarrow> io \<Rightarrow> string \<Rightarrow> world \<Rightarrow> response \<times> world" where
  "GET_result_miss env io studentId w =
     (case results_findOne io studentId w of
        (Inl err, w1) \<Rightarrow> (res_json 500 (error_body ''Failed to fetch result''), w1)
      | (Inr None, w1) \<Rightarrow> (res_json 404 (error_body ''Result not found''), w1)
      | (Inr (Some result), w1) \<Rightarrow>
          (case redisClient_setEx io (''result:'' @ studentId) (CACHE_TTL env)
                  (JSON_stringify (JObj result)) w1 of
             (Inl err, w2) \<Rightarrow> (res_json 500 (error_body ''Failed to fetch result''), w2)
           | (Inr u, w2) \<Rightarrow> (res_json 200 (JObj result), w2)))"

text \<open>
  The handler. \<^verbatim>\<open>if (cached)\<close> is false for \<^verbatim>\<open>null\<close> and for the empty string; an
  exception of \<^verbatim>\<open>JSON.parse\<close> is caught like one of a driver.
\<close>

definition GET_result :: "string option \<Rightarrow> io \<Rightarrow> string \<Rightarrow> world \<Rightarrow> response \<times> world" where
  "GET_result env io studentId w =
     (case redisClient_get io (''result:'' @ studentId) w of
        (Inl err, w1) \<Rightarrow> (res_json 500 (error_body ''Failed to fetch result''), w1)
      | (Inr None, w1) \<Rightarrow> GET_result_miss env io studentId w1
      | (Inr (Some cached), w1) \<Rightarrow>
          if cached \<noteq> Empty_string then
            (case JSON_parse cached of
               Inl err \<Rightarrow> (res_json 500 (error_body ''Failed to fetch result''), w1)
             | Inr v \<Rightarrow> (res_json 200 v, w1))
          else GET_result_miss env io studentId w1)"

subsection \<open>POST /addResult\<close>

text \<open>
  After the insert, the template literal of line 184 converts \<^verbatim>\<open>resultData.id\<close> to a
  string (and that of line 185 does so again, with the same outcome). When this throws,
  the exception is caught like one of a driver: the document is stored, and the cache
  is not written.
\<close>

definition POST_addResult :: "string option \<Rightarrow> io \<Rightarrow> obj \<Rightarrow> world \<Rightarrow> response \<times> world" where
  "POST_addResult env io resultData w =
     (if \<not> truthy (get_prop resultData ''id'') \<or> \<not> truthy (get_prop resultData ''subjects'')
      then (res_json 400 (error_body ''Invalid result data''), w)
      else
        case results_insertOne io resultData w of
          (Inl err, w1) \<Rightarrow> (res_json 500 (error_body ''Failed to add result''), w1)
        | (Inr (insertedId, resultData'), w1) \<Rightarrow>
            (case result_key (get_prop resultData' ''id'') of
               Inl err \<Rightarrow> (res_json 500 (error_body ''Failed to add result''), w1)
             | Inr key \<Rightarrow>
                 (case redisClient_setEx io key (CACHE_TTL env)
                         (JSON_stringify (JObj resultData')) w1 of
                    (Inl err, w2) \<Rightarrow> (res_json 500 (error_body ''Failed to add result''), w2)
                  | (Inr u, w2) \<Rightarrow>
                      (res_json 201 (JObj [(''message'', JStr ''Result added''),
                                           (''id'', insertedId)]), w2))))"

subsection \<open>POST /addStudent\<close>

definition POST_addStudent :: "io \<Rightarrow> obj \<Rightarrow> world \<Rightarrow> response \<times> world" where
  "POST_addStudent io studentData w =
     (if \<not> truthy (get_prop studentData ''id'') \<or> \<not> truthy (get_prop studentData ''name'')
      then (res_json 400 (error_body ''Invalid student data''), w)
      else
        case students_insertOne io studentData w of
          (Inl err, w1) \<Rightarrow> (res_json 500 (error_body ''Failed to add student''), w1)
        | (Inr (insertedId, studentData'), w1) \<Rightarrow>
            (res_json 201 (JObj [(''message'', JStr ''Student added''), (''id'', insertedId)]), w1))"

subsection \<open>Requests served in sequence\<close>

text \<open>
  The three routes that reach the collection \<^verbatim>\<open>results\<close> or the cache, and the state
  after a list of requests, each with what it finds outside the process, has been served
  in order.
\<close>

datatype request =
    Get_result string
  | Post_addResult obj
  | Post_addStudent obj

fun handle :: "string option \<Rightarrow> io \<Rightarrow> request \<Rightarrow> world \<Rightarrow> response \<times> world" where
  "handle env io (Get_result studentId) w = GET_result env io studentId w"
| "handle env io (Post_addResult resultData) w = POST_addResult env io resultData w"
| "handle env io (Post_addStudent studentData) w = POST_addStudent io studentData w"

fun serve :: "string option \<Rightarrow> (io \<times> request) list \<Rightarrow> world \<Rightarrow> world" where
  "serve env [] w = w"
| "serve env ((io, rq) # rqs) w = serve env rqs (snd (handle env io rq w))"

section \<open>Sample requests\<close>

text \<open>A request that meets no driver error, at time \<open>t\<close>; and the empty services.\<close>

definition io_ok :: "nat \<Rightarrow> string \<Rightarrow> io" where
  "io_ok t oid =
     \<lparr>now = t, new_oid = oid, get_error = None, findOne_error = None,
      setEx_error = None, insertOne_error = None\<rparr>"

definition empty_world :: world where
  "empty_world = \<lparr>cache = Map.empty, results = [], students = [], calls = []\<rparr>"

text \<open>The values of the top-level fields of a response body.\<close>

definition body_values :: "response \<Rightarrow> js_value list" where
  "body_values res = (case body res of Serialized (JObj kvs) \<Rightarrow> map snd kvs | _ \<Rightarrow> [])"


section \<open>Auxiliary facts\<close>

lemma toJSON_idem: "toJSON (toJSON v) = toJSON v"
  by (induction v) (auto simp: map_idI)

lemma status_res_json: "status (res_json c v) = c"
  by (simp add: res_json_def)

lemma res_json_toJSON: "res_json c (toJSON v) = res_json c v"
  by (simp add: res_json_def JSON_stringify_def toJSON_idem)

lemmas parseInt_eval =
  CACHE_TTL_def parseInt_def parseInt_string_def white_bytes_def digit_value_def
  round_to_double_def skip_white.simps bit_length.simps

lemmas handler_eval =
  GET_result_def GET_result_miss_def POST_addResult_def POST_addStudent_def
  redisClient_get_def redisClient_setEx_def results_findOne_def results_insertOne_def
  students_insertOne_def collection_insertOne_def assign_id_def insertedId_of_def
  stored_form_def live_entry_def matches_id_def get_prop_def result_key_def
  res_json_def error_body_def JSON_stringify_def io_ok_def empty_world_def

lemma get_prop_assign_id: "k \<noteq> ''_id'' \<Longrightarrow> get_prop (assign_id oid r) k = get_prop r k"
  by (simp add: assign_id_def get_prop_def update_conv')

lemma setEx_calls:
  "redisClient_setEx io key n v w = (r, w') \<Longrightarrow> calls w' = calls w @ [Redis_setEx key n v]"
  by (auto simp: redisClient_setEx_def Let_def split: option.splits number.splits if_splits)

lemma get_calls:
  "redisClient_get io key w = (r, w') \<Longrightarrow> calls w' = calls w @ [Redis_get key]"
  by (auto simp: redisClient_get_def Let_def split: option.splits)

lemma findOne_calls:
  "results_findOne io s w = (r, w') \<Longrightarrow> calls w' = calls w @ [Mongo_findOne ''results'' s]"
  by (auto simp: results_findOne_def Let_def split: option.splits)

lemma results_insertOne_calls:
  "results_insertOne io d w = (r, w') \<Longrightarrow> calls w' = calls w @ [Mongo_insertOne ''results'' d]"
  by (auto simp: results_insertOne_def Let_def split: sum.splits)

lemma GET_result_miss_setEx:
  "Redis_setEx k t v \<in> set (calls (snd (GET_result_miss env io s w))) \<Longrightarrow>
   Redis_setEx k t v \<in> set (calls w) \<or> t = CACHE_TTL env"
  by (auto simp: GET_result_miss_def split: prod.splits sum.splits option.splits
      dest!: setEx_calls findOne_calls)

lemma GET_result_setEx:
  "Redis_setEx k t v \<in> set (calls (snd (GET_result env io s w))) \<Longrightarrow>
   Redis_setEx k t v \<in> set (calls w) \<or> t = CACHE_TTL env"
  by (auto simp: GET_result_def split: prod.splits sum.splits option.splits if_splits
      dest!: get_calls GET_result_miss_setEx)

lemma POST_addResult_setEx:
  "Redis_setEx k t v \<in> set (calls (snd (POST_addResult env io r w))) \<Longrightarrow>
   Redis_setEx k t v \<in> set (calls w) \<or> t = CACHE_TTL env"
  by (auto simp: POST_addResult_def split: prod.splits sum.splits option.splits if_splits
      dest!: setEx_calls results_insertOne_calls)

text \<open>The three ways through the handler of GET /result/:id after the cache was read.\<close>

lemma GET_result_hit:
  assumes "get_error io = None"
    and "live_entry (now io) (cache w) (''result:'' @ s) = Some (Serialized v)"
  shows "GET_result env io s w =
           (res_json 200 v, w\<lparr>calls := calls w @ [Redis_get (''result:'' @ s)]\<rparr>)"
  using assms by (simp add: GET_result_def redisClient_get_def)

lemma GET_result_to_miss:
  assumes "get_error io = None"
    and "live_entry (now io) (cache w) (''result:'' @ s) = None
         \<or> live_entry (now io) (cache w) (''result:'' @ s) = Some Empty_string"
  shows "GET_result env io s w =
           GET_result_miss env io s (w\<lparr>calls := calls w @ [Redis_get (''result:'' @ s)]\<rparr>)"
  using assms by (auto simp: GET_result_def redisClient_get_def)

lemma GET_result_miss_found:
  assumes "findOne_error io = None" and "find (matches_id s) (results w) = Some doc"
    and "setEx_error io = None" and "CACHE_TTL env = Finite n" and "0 < n"
  shows "GET_result_miss env io s w =
           (res_json 200 (JObj doc),
            w\<lparr>cache := (cache w)(''result:'' @ s \<mapsto>
                  (JSON_stringify (JObj doc), now io + 1000 * nat n)),
              calls := calls w @ [Mongo_findOne ''results'' s,
                  Redis_setEx (''result:'' @ s) (CACHE_TTL env) (JSON_stringify (JObj doc))]\<rparr>)"
  using assms
  by (simp add: GET_result_miss_def results_findOne_def redisClient_setEx_def)

lemma GET_result_miss_not_found:
  assumes "findOne_error io = None" and "find (matches_id s) (results w) = None"
  shows "GET_result_miss env io s w =
           (res_json 404 (error_body ''Result not found''),
            w\<lparr>calls := calls w @ [Mongo_findOne ''results'' s]\<rparr>)"
  using assms by (simp add: GET_result_miss_def results_findOne_def)

lemma GET_result_miss_findOne_error:
  assumes "findOne_error io = Some msg"
  shows "GET_result_miss env io s w =
           (res_json 500 (error_body ''Failed to fetch result''),
            w\<lparr>calls := calls w @ [Mongo_findOne ''results'' s]\<rparr>)"
  using assms by (simp add: GET_result_miss_def results_findOne_def)

lemma GET_result_miss_setEx_error:
  assumes "findOne_error io = None" and "find (matches_id s) (results w) = Some doc"
    and "setEx_error io = Some msg"
  shows "GET_result_miss env io s w =
           (res_json 500 (error_body ''Failed to fetch result''),
            w\<lparr>calls := calls w @ [Mongo_findOne ''results'' s,
                  Redis_setEx (''result:'' @ s) (CACHE_TTL env) (JSON_stringify (JObj doc))]\<rparr>)"
  using assms
  by (simp add: GET_result_miss_def results_findOne_def redisClient_setEx_def)

lemma GET_result_miss_setEx_refused:
  assumes "findOne_error io = None" and "find (matches_id s) (results w) = Some doc"
    and "setEx_error io = None" and "\<forall>n. CACHE_TTL env = Finite n \<longrightarrow> n \<le> 0"
  shows "GET_result_miss env io s w =
           (res_json 500 (error_body ''Failed to fetch result''),
            w\<lparr>calls := calls w @ [Mongo_findOne ''results'' s,
                  Redis_setEx (''result:'' @ s) (CACHE_TTL env) (JSON_stringify (JObj doc))]\<rparr>)"
  using assms
  by (cases "CACHE_TTL env")
    (simp_all add: GET_result_miss_def results_findOne_def redisClient_setEx_def)

section \<open>Result lookup\<close>

text \<open>
  Claim C1. For every student id \<open>s\<close>, GET /result/:id first reads the cache entry of
  the key \<^verbatim>\<open>result:\<close> followed by \<open>s\<close>. When the entry is present (the serialization of
  a value), the handler deserializes it and returns it, and its only driver call is the
  cache read: the Persistent Store is not consulted. When the entry is absent, the
  second call queries the collection \<^verbatim>\<open>results\<close> for \<open>s\<close>; when that finds a document,
  the handler writes its serialization into the cache under the same key with the fixed
  TTL and then returns the document.
\<close>

theorem C1_lookup_cache_aside:
  assumes "get_error io = None"
  shows "(live_entry (now io) (cache w) (''result:'' @ s) = Some (Serialized v) \<longrightarrow>
            GET_result env io s w =
              (res_json 200 v, w\<lparr>calls := calls w @ [Redis_get (''result:'' @ s)]\<rparr>))
       \<and> (live_entry (now io) (cache w) (''result:'' @ s) = None \<longrightarrow>
            take (length (calls w) + 2) (calls (snd (GET_result env io s w))) =
              calls w @ [Redis_get (''result:'' @ s), Mongo_findOne ''results'' s])
       \<and> (live_entry (now io) (cache w) (''result:'' @ s) = None \<and> findOne_error io = None
            \<and> find (matches_id s) (results w) = Some doc
            \<and> setEx_error io = None \<and> CACHE_TTL env = Finite n \<and> 0 < n \<longrightarrow>
            GET_result env io s w =
              (res_json 200 (JObj doc),
               w\<lparr>cache := (cache w)(''result:'' @ s \<mapsto>
                     (JSON_stringify (JObj doc), now io + 1000 * nat n)),
                 calls := calls w @ [Redis_get (''result:'' @ s), Mongo_findOne ''results'' s,
                     Redis_setEx (''result:'' @ s) (CACHE_TTL env)
                       (JSON_stringify (JObj doc))]\<rparr>))"
proof (intro conjI impI)
  assume "live_entry (now io) (cache w) (''result:'' @ s) = Some (Serialized v)"
  with assms show "GET_result env io s w =
      (res_json 200 v, w\<lparr>calls := calls w @ [Redis_get (''result:'' @ s)]\<rparr>)"
    by (rule GET_result_hit)
next
  assume miss: "live_entry (now io) (cache w) (''result:'' @ s) = None"
  let ?w1 = "w\<lparr>calls := calls w @ [Redis_get (''result:'' @ s)]\<rparr>"
  have step: "GET_result env io s w = GET_result_miss env io s ?w1"
    using assms miss by (simp add: GET_result_to_miss)
  obtain r w2 where f: "results_findOne io s ?w1 = (r, w2)"
    by (cases "results_findOne io s ?w1")
  then have c2: "calls w2 = calls w @ [Redis_get (''result:'' @ s), Mongo_findOne ''results'' s]"
    by (auto dest: findOne_calls)
  show "take (length (calls w) + 2) (calls (snd (GET_result env io s w))) =
      calls w @ [Redis_get (''result:'' @ s), Mongo_findOne ''results'' s]"
    using f c2 unfolding step GET_result_miss_def
    by (auto split: sum.splits option.splits prod.splits dest!: setEx_calls)
next
  assume h: "live_entry (now io) (cache w) (''result:'' @ s) = None \<and> findOne_error io = None
            \<and> find (matches_id s) (results w) = Some doc
            \<and> setEx_error io = None \<and> CACHE_TTL env = Finite n \<and> 0 < n"
  let ?w1 = "w\<lparr>calls := calls w @ [Redis_get (''result:'' @ s)]\<rparr>"
  have "GET_result env io s w = GET_result_miss env io s ?w1"
    using assms h by (simp add: GET_result_to_miss)
  also have "\<dots> = (res_json 200 (JObj doc),
       ?w1\<lparr>cache := (cache ?w1)(''result:'' @ s \<mapsto>
             (JSON_stringify (JObj doc), now io + 1000 * nat n)),
         calls := calls ?w1 @ [Mongo_findOne ''results'' s,
             Redis_setEx (''result:'' @ s) (CACHE_TTL env) (JSON_stringify (JObj doc))]\<rparr>)"
    using h by (intro GET_result_miss_found) simp_all
  finally show "GET_result env io s w =
      (res_json 200 (JObj doc),
       w\<lparr>cache := (cache w)(''result:'' @ s \<mapsto>
             (JSON_stringify (JObj doc), now io + 1000 * nat n)),
         calls := calls w @ [Redis_get (''result:'' @ s), Mongo_findOne ''results'' s,
             Redis_setEx (''result:'' @ s) (CACHE_TTL env) (JSON_stringify (JObj doc))]\<rparr>)"
    by simp
qed

theorem C1_lookup_cache_aside_witness:
  "GET_result None (io_ok 5 ''65f000000000000000000001'') ''S1''
     (empty_world\<lparr>cache := [''result:S1'' \<mapsto> (Serialized (JObj [(''id'', JStr ''S1'')]), 9)]\<rparr>) =
   (res_json 200 (JObj [(''id'', JStr ''S1'')]),
    empty_world\<lparr>cache := [''result:S1'' \<mapsto> (Serialized (JObj [(''id'', JStr ''S1'')]), 9)],
      calls := [Redis_get ''result:S1'']\<rparr>)
   \<and> GET_result None (io_ok 5 ''65f000000000000000000001'') ''S1''
     (empty_world\<lparr>results := [[(''_id'', JOid ''65f000000000000000000000''), (''id'', JStr ''S1'')]]\<rparr>) =
   (res_json 200 (JObj [(''_id'', JOid ''65f000000000000000000000''), (''id'', JStr ''S1'')]),
    empty_world\<lparr>cache := [''result:S1'' \<mapsto>
        (Serialized (JObj [(''_id'', JStr ''65f000000000000000000000''), (''id'', JStr ''S1'')]), 600005)],
      results := [[(''_id'', JOid ''65f000000000000000000000''), (''id'', JStr ''S1'')]],
      calls := [Redis_get ''result:S1'', Mongo_findOne ''results'' ''S1'',
        Redis_setEx ''result:S1'' (Finite 600)
          (Serialized (JObj [(''_id'', JStr ''65f000000000000000000000''), (''id'', JStr ''S1'')]))]\<rparr>)"
  using
    C1_lookup_cache_aside [where io = "io_ok 5 ''65f000000000000000000001''"
      and w = "empty_world\<lparr>cache := [''result:S1'' \<mapsto> (Serialized (JObj [(''id'', JStr ''S1'')]), 9)]\<rparr>"
      and s = "''S1''" and v = "JObj [(''id'', JStr ''S1'')]" and env = None]
    C1_lookup_cache_aside [where io = "io_ok 5 ''65f000000000000000000001''"
      and w = "empty_world\<lparr>results := [[(''_id'', JOid ''65f000000000000000000000''), (''id'', JStr ''S1'')]]\<rparr>"
      and s = "''S1''" and env = None and n = 600
      and doc = "[(''_id'', JOid ''65f000000000000000000000''), (''id'', JStr ''S1'')]"]
  by (simp add: io_ok_def empty_world_def live_entry_def matches_id_def get_prop_def
      parseInt_eval JSON_stringify_def)

text \<open>
  Claim C3, as stated: when the cache holds no entry for \<^verbatim>\<open>result:\<close>\<open>s\<close> and the
  collection \<^verbatim>\<open>results\<close> holds no document whose \<^verbatim>\<open>id\<close> equals \<open>s\<close>,
  GET /result/:id answers 404 and writes no cache entry. After POST /addResult of
  \<^verbatim>\<open>{id:["a","b"], subjects:1}\<close> the collection holds one document, whose \<^verbatim>\<open>id\<close> is
  the array and not the string \<^verbatim>\<open>a\<close>, and the cache holds no entry for \<^verbatim>\<open>result:a\<close>;
  yet the filter \<^verbatim>\<open>{ id: "a" }\<close> matches that document, and the lookup of \<^verbatim>\<open>a\<close> is
  answered 200 and writes the entry \<^verbatim>\<open>result:a\<close>.
\<close>

theorem C3_array_id_is_found:
  "results (snd (POST_addResult None (io_ok 0 ''65f000000000000000000001'')
      [(''id'', JArr [JStr ''a'', JStr ''b'']), (''subjects'', JNum ''1'')] empty_world)) =
     [[(''_id'', JOid ''65f000000000000000000001''), (''id'', JArr [JStr ''a'', JStr ''b'']),
       (''subjects'', JNum ''1'')]]
   \<and> cache (snd (POST_addResult None (io_ok 0 ''65f000000000000000000001'')
      [(''id'', JArr [JStr ''a'', JStr ''b'']), (''subjects'', JNum ''1'')] empty_world))
        ''result:a'' = None
   \<and> status (fst (GET_result None (io_ok 1 ''65f000000000000000000002'') ''a''
      (snd (POST_addResult None (io_ok 0 ''65f000000000000000000001'')
        [(''id'', JArr [JStr ''a'', JStr ''b'']), (''subjects'', JNum ''1'')] empty_world)))) = 200
   \<and> cache (snd (GET_result None (io_ok 1 ''65f000000000000000000002'') ''a''
      (snd (POST_addResult None (io_ok 0 ''65f000000000000000000001'')
        [(''id'', JArr [JStr ''a'', JStr ''b'']), (''subjects'', JNum ''1'')] empty_world))))
        ''result:a'' \<noteq> None"
  by (simp add: handler_eval parseInt_eval)

text \<open>
  Claim C3, amended. For every student id \<open>s\<close> such that the cache holds no entry for
  \<^verbatim>\<open>result:\<close>\<open>s\<close> and the collection \<^verbatim>\<open>results\<close> holds no document that the filter
  \<^verbatim>\<open>{ id: s }\<close> matches (none whose \<^verbatim>\<open>id\<close> is \<open>s\<close> or an array containing \<open>s\<close>),
  GET /result/:id answers 404 with the body \<^verbatim>\<open>{error:"Result not found"}\<close> and leaves
  the cache as it was: no entry is written.
\<close>

theorem C3_lookup_not_found:
  assumes "get_error io = None" and "findOne_error io = None"
    and "live_entry (now io) (cache w) (''result:'' @ s) = None"
    and "\<forall>doc \<in> set (results w). \<not> matches_id s doc"
  shows "GET_result env io s w =
           (res_json 404 (error_body ''Result not found''),
            w\<lparr>calls := calls w @ [Redis_get (''result:'' @ s), Mongo_findOne ''results'' s]\<rparr>)
       \<and> status (fst (GET_result env io s w)) = 404
       \<and> body (fst (GET_result env io s w)) = Serialized (JObj [(''error'', JStr ''Result not found'')])
       \<and> cache (snd (GET_result env io s w)) = cache w"
proof -
  have nf: "find (matches_id s) (results w) = None"
    using assms(4) by (simp add: find_None_iff)
  let ?w1 = "w\<lparr>calls := calls w @ [Redis_get (''result:'' @ s)]\<rparr>"
  have "GET_result env io s w = GET_result_miss env io s ?w1"
    using assms(1,3) by (simp add: GET_result_to_miss)
  also have "\<dots> = (res_json 404 (error_body ''Result not found''),
      ?w1\<lparr>calls := calls ?w1 @ [Mongo_findOne ''results'' s]\<rparr>)"
    using assms(2) nf by (intro GET_result_miss_not_found) simp_all
  finally have eq: "GET_result env io s w =
      (res_json 404 (error_body ''Result not found''),
       w\<lparr>calls := calls w @ [Redis_get (''result:'' @ s), Mongo_findOne ''results'' s]\<rparr>)"
    by simp
  show ?thesis
    unfolding eq by (simp add: res_json_def error_body_def JSON_stringify_def)
qed

theorem C3_lookup_not_found_witness:
  "GET_result None (io_ok 0 ''65f000000000000000000001'') ''UNKNOWN'' empty_world =
     (\<lparr>status = 404, body = Serialized (JObj [(''error'', JStr ''Result not found'')])\<rparr>,
      empty_world\<lparr>calls := [Redis_get ''result:UNKNOWN'', Mongo_findOne ''results'' ''UNKNOWN'']\<rparr>)"
  using C3_lookup_not_found [of "io_ok 0 ''65f000000000000000000001''" empty_world "''UNKNOWN''" None]
  by (simp add: io_ok_def empty_world_def live_entry_def res_json_def error_body_def
      JSON_stringify_def)

text \<open>
  Claim C6. For every student id \<open>s\<close>, when the cache read, the store query or the cache
  write that GET /result/:id performs raises a driver error, the answer is 500 with the
  fixed body \<^verbatim>\<open>{error:"Failed to fetch result"}\<close>, whatever the message of the error;
  the failing call is the last one (it is not retried), and neither the cache nor the
  store is changed. The same holds when Redis refuses the cache write because the TTL is
  not a positive integer.
\<close>

theorem C6_lookup_service_error:
  "(get_error io = Some msg \<longrightarrow>
      GET_result env io s w =
        (res_json 500 (error_body ''Failed to fetch result''),
         w\<lparr>calls := calls w @ [Redis_get (''result:'' @ s)]\<rparr>))
   \<and> (get_error io = None
        \<and> (live_entry (now io) (cache w) (''result:'' @ s) = None
           \<or> live_entry (now io) (cache w) (''result:'' @ s) = Some Empty_string)
        \<and> findOne_error io = Some msg \<longrightarrow>
      GET_result env io s w =
        (res_json 500 (error_body ''Failed to fetch result''),
         w\<lparr>calls := calls w @ [Redis_get (''result:'' @ s), Mongo_findOne ''results'' s]\<rparr>))
   \<and> (get_error io = None
        \<and> (live_entry (now io) (cache w) (''result:'' @ s) = None
           \<or> live_entry (now io) (cache w) (''result:'' @ s) = Some Empty_string)
        \<and> findOne_error io = None \<and> find (matches_id s) (results w) = Some doc
        \<and> setEx_error io = Some msg \<longrightarrow>
      GET_result env io s w =
        (res_json 500 (error_body ''Failed to fetch result''),
         w\<lparr>calls := calls w @ [Redis_get (''result:'' @ s), Mongo_findOne ''results'' s,
             Redis_setEx (''result:'' @ s) (CACHE_TTL env) (JSON_stringify (JObj doc))]\<rparr>))
   \<and> (get_error io = None
        \<and> (live_entry (now io) (cache w) (''result:'' @ s) = None
           \<or> live_entry (now io) (cache w) (''result:'' @ s) = Some Empty_string)
        \<and> findOne_error io = None \<and> find (matches_id s) (results w) = Some doc
        \<and> setEx_error io = None \<and> (\<forall>n. CACHE_TTL env = Finite n \<longrightarrow> n \<le> 0) \<longrightarrow>
      GET_result env io s w =
        (res_json 500 (error_body ''Failed to fetch result''),
         w\<lparr>calls := calls w @ [Redis_get (''result:'' @ s), Mongo_findOne ''results'' s,
             Redis_setEx (''result:'' @ s) (CACHE_TTL env) (JSON_stringify (JObj doc))]\<rparr>))
   \<and> status (res_json 500 (error_body ''Failed to fetch result'')) = 500
   \<and> body (res_json 500 (error_body ''Failed to fetch result'')) =
        Serialized (JObj [(''error'', JStr ''Failed to fetch result'')])"
proof (intro conjI impI)
  assume "get_error io = Some msg"
  then show "GET_result env io s w =
      (res_json 500 (error_body ''Failed to fetch result''),
       w\<lparr>calls := calls w @ [Redis_get (''result:'' @ s)]\<rparr>)"
    by (simp add: GET_result_def redisClient_get_def)
next
  assume h: "get_error io = None
        \<and> (live_entry (now io) (cache w) (''result:'' @ s) = None
           \<or> live_entry (now io) (cache w) (''result:'' @ s) = Some Empty_string)
        \<and> findOne_error io = Some msg"
  then have "GET_result env io s w =
      GET_result_miss env io s (w\<lparr>calls := calls w @ [Redis_get (''result:'' @ s)]\<rparr>)"
    by (intro GET_result_to_miss) simp_all
  then show "GET_result env io s w =
      (res_json 500 (error_body ''Failed to fetch result''),
       w\<lparr>calls := calls w @ [Redis_get (''result:'' @ s), Mongo_findOne ''results'' s]\<rparr>)"
    using h by (simp add: GET_result_miss_findOne_error)
next
  assume h: "get_error io = None
        \<and> (live_entry (now io) (cache w) (''result:'' @ s) = None
           \<or> live_entry (now io) (cache w) (''result:'' @ s) = Some Empty_string)
        \<and> findOne_error io = None \<and> find (matches_id s) (results w) = Some doc
        \<and> setEx_error io = Some msg"
  let ?w1 = "w\<lparr>calls := calls w @ [Redis_get (''result:'' @ s)]\<rparr>"
  have "GET_result env io s w = GET_result_miss env io s ?w1"
    using h by (intro GET_result_to_miss) simp_all
  also have "\<dots> = (res_json 500 (error_body ''Failed to fetch result''),
      ?w1\<lparr>calls := calls ?w1 @ [Mongo_findOne ''results'' s,
          Redis_setEx (''result:'' @ s) (CACHE_TTL env) (JSON_stringify (JObj doc))]\<rparr>)"
    using h by (intro GET_result_miss_setEx_error [where msg = msg]) simp_all
  finally show "GET_result env io s w =
      (res_json 500 (error_body ''Failed to fetch result''),
       w\<lparr>calls := calls w @ [Redis_get (''result:'' @ s), Mongo_findOne ''results'' s,
           Redis_setEx (''result:'' @ s) (CACHE_TTL env) (JSON_stringify (JObj doc))]\<rparr>)"
    by simp
next
  assume h: "get_error io = None
        \<and> (live_entry (now io) (cache w) (''result:'' @ s) = None
           \<or> live_entry (now io) (cache w) (''result:'' @ s) = Some Empty_string)
        \<and> findOne_error io = None \<and> find (matches_id s) (results w) = Some doc
        \<and> setEx_error io = None \<and> (\<forall>n. CACHE_TTL env = Finite n \<longrightarrow> n \<le> 0)"
  let ?w1 = "w\<lparr>calls := calls w @ [Redis_get (''result:'' @ s)]\<rparr>"
  have "GET_result env io s w = GET_result_miss env io s ?w1"
    using h by (intro GET_result_to_miss) simp_all
  also have "\<dots> = (res_json 500 (error_body ''Failed to fetch result''),
      ?w1\<lparr>calls := calls ?w1 @ [Mongo_findOne ''results'' s,
          Redis_setEx (''result:'' @ s) (CACHE_TTL env) (JSON_stringify (JObj doc))]\<rparr>)"
    using h by (intro GET_result_miss_setEx_refused) simp_all
  finally show "GET_result env io s w =
      (res_json 500 (error_body ''Failed to fetch result''),
       w\<lparr>calls := calls w @ [Redis_get (''result:'' @ s), Mongo_findOne ''results'' s,
           Redis_setEx (''result:'' @ s) (CACHE_TTL env) (JSON_stringify (JObj doc))]\<rparr>)"
    by simp
qed (simp_all add: res_json_def error_body_def JSON_stringify_def)

theorem C6_lookup_service_error_witness:
  "fst (GET_result None ((io_ok 0 ''65f000000000000000000001'')\<lparr>get_error := Some ''ECONNRESET''\<rparr>)
     ''S1'' empty_world) =
     \<lparr>status = 500, body = Serialized (JObj [(''error'', JStr ''Failed to fetch result'')])\<rparr>
   \<and> fst (GET_result None ((io_ok 0 ''65f000000000000000000001'')\<lparr>findOne_error := Some ''topology closed''\<rparr>)
     ''S1'' empty_world) =
     \<lparr>status = 500, body = Serialized (JObj [(''error'', JStr ''Failed to fetch result'')])\<rparr>
   \<and> GET_result None ((io_ok 0 ''65f000000000000000000001'')\<lparr>setEx_error := Some ''ECONNRESET''\<rparr>)
     ''S1'' (empty_world\<lparr>results := [[(''id'', JStr ''S1'')]]\<rparr>) =
     (\<lparr>status = 500, body = Serialized (JObj [(''error'', JStr ''Failed to fetch result'')])\<rparr>,
      empty_world\<lparr>results := [[(''id'', JStr ''S1'')]],
        calls := [Redis_get ''result:S1'', Mongo_findOne ''results'' ''S1'',
          Redis_setEx ''result:S1'' (Finite 600) (Serialized (JObj [(''id'', JStr ''S1'')]))]\<rparr>)
   \<and> GET_result (Some ''-5'') (io_ok 0 ''65f000000000000000000001'')
     ''S1'' (empty_world\<lparr>results := [[(''id'', JStr ''S1'')]]\<rparr>) =
     (\<lparr>status = 500, body = Serialized (JObj [(''error'', JStr ''Failed to fetch result'')])\<rparr>,
      empty_world\<lparr>results := [[(''id'', JStr ''S1'')]],
        calls := [Redis_get ''result:S1'', Mongo_findOne ''results'' ''S1'',
          Redis_setEx ''result:S1'' (Finite (- 5)) (Serialized (JObj [(''id'', JStr ''S1'')]))]\<rparr>)"
  using
    C6_lookup_service_error [where io = "io_ok 0 ''65f000000000000000000001''" and msg = "[]"
      and env = "Some ''-5''" and s = "''S1''"
      and w = "empty_world\<lparr>results := [[(''id'', JStr ''S1'')]]\<rparr>"
      and doc = "[(''id'', JStr ''S1'')]"]
    C6_lookup_service_error [of "(io_ok 0 ''65f000000000000000000001'')\<lparr>get_error := Some ''ECONNRESET''\<rparr>"
      "''ECONNRESET''" None "''S1''" empty_world]
    C6_lookup_service_error [of "(io_ok 0 ''65f000000000000000000001'')\<lparr>findOne_error := Some ''topology closed''\<rparr>"
      "''topology closed''" None "''S1''" empty_world]
    C6_lookup_service_error [of "(io_ok 0 ''65f000000000000000000001'')\<lparr>setEx_error := Some ''ECONNRESET''\<rparr>"
      "''ECONNRESET''" None "''S1''" "empty_world\<lparr>results := [[(''id'', JStr ''S1'')]]\<rparr>"
      "[(''id'', JStr ''S1'')]"]
  by (simp add: io_ok_def empty_world_def live_entry_def matches_id_def get_prop_def
      parseInt_eval JSON_stringify_def res_json_def error_body_def)

lemma GET_result_miss_200D:
  assumes "status (fst (GET_result_miss env io s w)) = 200"
  shows "\<exists>doc n. findOne_error io = None \<and> find (matches_id s) (results w) = Some doc
           \<and> setEx_error io = None \<and> CACHE_TTL env = Finite n \<and> 0 < n"
  using assms
  by (auto simp: GET_result_miss_def results_findOne_def redisClient_setEx_def Let_def
      status_res_json split: option.splits number.splits if_splits)

text \<open>What each handler can change of the collection \<^verbatim>\<open>results\<close> and of the cache.\<close>

lemma find_append_Some: "find P xs = Some x \<Longrightarrow> find P (xs @ ys) = Some x"
  by (induction xs) auto

lemma GET_result_miss_effect:
  "results (snd (GET_result_miss env io s w)) = results w
   \<and> (cache (snd (GET_result_miss env io s w)) = cache w
      \<or> (\<exists>doc n. find (matches_id s) (results w) = Some doc \<and> CACHE_TTL env = Finite n \<and> 0 < n
            \<and> cache (snd (GET_result_miss env io s w)) =
                (cache w)(''result:'' @ s \<mapsto> (JSON_stringify (JObj doc), now io + 1000 * nat n))))"
  by (auto simp: GET_result_miss_def results_findOne_def redisClient_setEx_def Let_def
      split: option.splits number.splits)

lemma GET_result_effect:
  "results (snd (GET_result env io s w)) = results w
   \<and> (cache (snd (GET_result env io s w)) = cache w
      \<or> (\<exists>doc n. find (matches_id s) (results w) = Some doc \<and> CACHE_TTL env = Finite n \<and> 0 < n
            \<and> cache (snd (GET_result env io s w)) =
                (cache w)(''result:'' @ s \<mapsto> (JSON_stringify (JObj doc), now io + 1000 * nat n))))"
proof -
  let ?w1 = "w\<lparr>calls := calls w @ [Redis_get (''result:'' @ s)]\<rparr>"
  have "GET_result env io s w = GET_result_miss env io s ?w1
      \<or> snd (GET_result env io s w) = ?w1"
    by (auto simp: GET_result_def redisClient_get_def Let_def
        split: option.splits sum.splits)
  then show ?thesis
  proof
    assume "GET_result env io s w = GET_result_miss env io s ?w1"
    then show ?thesis
      using GET_result_miss_effect [of env io s ?w1] by simp
  next
    assume "snd (GET_result env io s w) = ?w1"
    then show ?thesis by simp
  qed
qed

lemma POST_addResult_effect:
  "(results (snd (POST_addResult env io b w)) = results w
      \<or> (\<exists>d. results (snd (POST_addResult env io b w)) = results w @ [d]))
   \<and> (cache (snd (POST_addResult env io b w)) = cache w
      \<or> (\<exists>k x n. result_key (get_prop b ''id'') = Inr k \<and> CACHE_TTL env = Finite n \<and> 0 < n
            \<and> cache (snd (POST_addResult env io b w)) =
                (cache w)(k \<mapsto> (JSON_stringify x, now io + 1000 * nat n))))"
  by (auto simp: POST_addResult_def results_insertOne_def collection_insertOne_def
      redisClient_setEx_def get_prop_assign_id Let_def
      split: option.splits number.splits sum.splits)

lemma POST_addStudent_effect:
  "results (snd (POST_addStudent io b w)) = results w
   \<and> cache (snd (POST_addStudent io b w)) = cache w"
  by (auto simp: POST_addStudent_def students_insertOne_def collection_insertOne_def Let_def
      split: option.splits)

text \<open>
  An entry that holds a serialized value and expires at \<open>T\<close> or later stays such an
  entry, whatever request is served at a time from which the TTL reaches \<open>T\<close>.
\<close>

lemma handle_keeps_entry:
  assumes "\<exists>v e. cache w key = Some (Serialized v, e) \<and> T \<le> e"
    and "CACHE_TTL env = Finite n" and "T \<le> now io + 1000 * nat n"
  shows "\<exists>v e. cache (snd (handle env io rq w)) key = Some (Serialized v, e) \<and> T \<le> e"
proof (cases rq)
  case (Get_result s')
  then show ?thesis
    using assms GET_result_effect [of env io s' w]
    by (auto simp: JSON_stringify_def)
next
  case (Post_addResult b)
  then show ?thesis
    using assms POST_addResult_effect [of env io b w]
    by (auto simp: JSON_stringify_def)
next
  case (Post_addStudent b)
  then show ?thesis
    using assms POST_addStudent_effect [of io b w] by simp
qed

lemma serve_keeps_entry:
  assumes "\<exists>v e. cache w key = Some (Serialized v, e) \<and> T \<le> e"
    and "CACHE_TTL env = Finite n"
    and "\<forall>(io, rq) \<in> set rqs. T \<le> now io + 1000 * nat n"
  shows "\<exists>v e. cache (serve env rqs w) key = Some (Serialized v, e) \<and> T \<le> e"
  using assms
proof (induction rqs arbitrary: w)
  case Nil
  then show ?case by simp
next
  case (Cons p rqs)
  obtain io rq where p: "p = (io, rq)"
    by (cases p)
  have "\<exists>v e. cache (snd (handle env io rq w)) key = Some (Serialized v, e) \<and> T \<le> e"
    using Cons.prems p by (intro handle_keeps_entry [where n = n]) auto
  then have "\<exists>v e. cache (serve env rqs (snd (handle env io rq w))) key =
      Some (Serialized v, e) \<and> T \<le> e"
    using Cons.prems by (intro Cons.IH) auto
  then show ?case
    by (simp add: p)
qed

text \<open>
  The entry of \<open>s\<close> keeps the serialization of the first document of the collection that
  matches \<open>s\<close>, as long as no POST /addResult writes the key of \<open>s\<close>.
\<close>

lemma handle_keeps_value:
  assumes "find (matches_id s) (results w) = Some doc"
    and "\<exists>e. cache w (''result:'' @ s) = Some (JSON_stringify (JObj doc), e) \<and> T \<le> e"
    and "CACHE_TTL env = Finite n" and "T \<le> now io + 1000 * nat n"
    and "\<forall>b. rq = Post_addResult b \<longrightarrow> result_key (get_prop b ''id'') \<noteq> Inr (''result:'' @ s)"
  shows "find (matches_id s) (results (snd (handle env io rq w))) = Some doc
       \<and> (\<exists>e. cache (snd (handle env io rq w)) (''result:'' @ s) =
              Some (JSON_stringify (JObj doc), e) \<and> T \<le> e)"
proof (cases rq)
  case (Get_result s')
  show ?thesis
  proof (cases "s' = s")
    case True
    then show ?thesis
      using Get_result assms(1-4) GET_result_effect [of env io s w] by auto
  next
    case False
    then show ?thesis
      using Get_result assms(1-4) GET_result_effect [of env io s' w] by auto
  qed
next
  case (Post_addResult b)
  then have "result_key (get_prop b ''id'') \<noteq> Inr (''result:'' @ s)"
    using assms(5) by simp
  then show ?thesis
    using Post_addResult assms(1-4) POST_addResult_effect [of env io b w]
    by (auto simp: find_append_Some)
next
  case (Post_addStudent b)
  then show ?thesis
    using assms(1,2) POST_addStudent_effect [of io b w] by simp
qed

lemma serve_keeps_value:
  assumes "find (matches_id s) (results w) = Some doc"
    and "\<exists>e. cache w (''result:'' @ s) = Some (JSON_stringify (JObj doc), e) \<and> T \<le> e"
    and "CACHE_TTL env = Finite n"
    and "\<forall>(io, rq) \<in> set rqs. T \<le> now io + 1000 * nat n"
    and "\<forall>(io, rq) \<in> set rqs. \<forall>b. rq = Post_addResult b \<longrightarrow>
           result_key (get_prop b ''id'') \<noteq> Inr (''result:'' @ s)"
  shows "\<exists>e. cache (serve env rqs w) (''result:'' @ s) =
           Some (JSON_stringify (JObj doc), e) \<and> T \<le> e"
  using assms
proof (induction rqs arbitrary: w)
  case Nil
  then show ?case by simp
next
  case (Cons p rqs)
  obtain io rq where p: "p = (io, rq)"
    by (cases p)
  have step: "find (matches_id s) (results (snd (handle env io rq w))) = Some doc
       \<and> (\<exists>e. cache (snd (handle env io rq w)) (''result:'' @ s) =
              Some (JSON_stringify (JObj doc), e) \<and> T \<le> e)"
    using Cons.prems p by (intro handle_keeps_value [where n = n]) auto
  have "\<exists>e. cache (serve env rqs (snd (handle env io rq w))) (''result:'' @ s) =
      Some (JSON_stringify (JObj doc), e) \<and> T \<le> e"
    using step Cons.prems by (intro Cons.IH) auto
  then show ?case
    by (simp add: p)
qed

text \<open>
  Claim C5, as stated: after a cold lookup of \<open>s\<close> that succeeded, any later lookup of
  \<open>s\<close> within the TTL window returns the same value as the first. A cold lookup of
  \<^verbatim>\<open>S1\<close> at time 1000 is answered 200 from the store; a POST /addResult for \<^verbatim>\<open>S1\<close> with
  other subjects at time 2000 overwrites the cache entry; the lookup of \<^verbatim>\<open>S1\<close> at time
  3000, well before the first entry would have expired, is answered with the new result.
\<close>

theorem C5_overwritten_entry_differs:
  "status (fst (GET_result None (io_ok 1000 ''65f000000000000000000001'') ''S1''
      (empty_world\<lparr>results := [[(''_id'', JOid ''65f000000000000000000000''), (''id'', JStr ''S1''),
                                  (''subjects'', JObj [(''math'', JNum ''90'')])]]\<rparr>))) = 200
   \<and> fst (GET_result None (io_ok 3000 ''65f000000000000000000003'') ''S1''
      (serve None [(io_ok 2000 ''65f000000000000000000002'',
                    Post_addResult [(''id'', JStr ''S1''), (''subjects'', JObj [(''math'', JNum ''10'')])])]
        (snd (GET_result None (io_ok 1000 ''65f000000000000000000001'') ''S1''
          (empty_world\<lparr>results := [[(''_id'', JOid ''65f000000000000000000000''), (''id'', JStr ''S1''),
                                      (''subjects'', JObj [(''math'', JNum ''90'')])]]\<rparr>)))))
     \<noteq> fst (GET_result None (io_ok 1000 ''65f000000000000000000001'') ''S1''
      (empty_world\<lparr>results := [[(''_id'', JOid ''65f000000000000000000000''), (''id'', JStr ''S1''),
                                  (''subjects'', JObj [(''math'', JNum ''90'')])]]\<rparr>))"
  by (simp add: handler_eval parseInt_eval)

text \<open>
  Claim C5, amended. After a cold GET /result/:id for \<open>s\<close> that misses the cache, finds
  the document in the store and succeeds, let any requests to the three routes be served,
  none earlier than the first lookup. A lookup of \<open>s\<close> within the TTL window of the first
  then issues the cache read as its only driver call, so it does not query the
  Persistent Store, and is answered 200. It returns the same response as the first
  lookup unless one of the requests in between was a POST /addResult whose cache key is
  that of \<open>s\<close>.
\<close>

theorem C5_second_lookup_from_cache:
  assumes "live_entry (now io1) (cache w) (''result:'' @ s) = None"
    and "GET_result env io1 s w = (r1, w1)"
    and "status r1 = 200"
    and "\<forall>(io, rq) \<in> set rqs. now io1 \<le> now io"
    and "w' = serve env rqs w1"
    and "get_error io2 = None"
    and "CACHE_TTL env = Finite n"
    and "now io2 < now io1 + 1000 * nat n"
  shows "calls (snd (GET_result env io2 s w')) = calls w' @ [Redis_get (''result:'' @ s)]
       \<and> status (fst (GET_result env io2 s w')) = 200
       \<and> Mongo_findOne ''results'' s \<in> set (calls w1)
       \<and> ((\<forall>(io, rq) \<in> set rqs. \<forall>b. rq = Post_addResult b \<longrightarrow>
              result_key (get_prop b ''id'') \<noteq> Inr (''result:'' @ s)) \<longrightarrow>
            GET_result env io2 s w' =
              (r1, w'\<lparr>calls := calls w' @ [Redis_get (''result:'' @ s)]\<rparr>))"
proof -
  let ?key = "''result:'' @ s"
  let ?T = "now io1 + 1000 * nat n"
  let ?w0 = "w\<lparr>calls := calls w @ [Redis_get ?key]\<rparr>"
  have g1: "get_error io1 = None"
    using assms(2,3)
    by (cases "get_error io1") (auto simp: GET_result_def redisClient_get_def status_res_json)
  then have step: "GET_result env io1 s w = GET_result_miss env io1 s ?w0"
    using assms(1) by (simp add: GET_result_to_miss)
  have m1: "GET_result_miss env io1 s ?w0 = (r1, w1)"
    using step assms(2) by (rule subst)
  have "status (fst (GET_result_miss env io1 s ?w0)) = 200"
    unfolding m1 using assms(3) by simp
  then obtain doc n' where d: "findOne_error io1 = None" "find (matches_id s) (results ?w0) = Some doc"
      "setEx_error io1 = None" "CACHE_TTL env = Finite n'" "0 < n'"
    using GET_result_miss_200D by blast
  have n': "n' = n"
    using d(4) assms(7) by simp
  have "GET_result_miss env io1 s ?w0 = (res_json 200 (JObj doc),
      ?w0\<lparr>cache := (cache ?w0)(?key \<mapsto> (JSON_stringify (JObj doc), now io1 + 1000 * nat n)),
        calls := calls ?w0 @ [Mongo_findOne ''results'' s,
            Redis_setEx ?key (CACHE_TTL env) (JSON_stringify (JObj doc))]\<rparr>)"
    using d unfolding n' by (rule GET_result_miss_found)
  with m1 have r1: "r1 = res_json 200 (JObj doc)"
    and w1: "w1 = ?w0\<lparr>cache := (cache ?w0)(?key \<mapsto> (JSON_stringify (JObj doc), now io1 + 1000 * nat n)),
        calls := calls ?w0 @ [Mongo_findOne ''results'' s,
            Redis_setEx ?key (CACHE_TTL env) (JSON_stringify (JObj doc))]\<rparr>"
    by simp_all
  have later: "\<forall>(io, rq) \<in> set rqs. ?T \<le> now io + 1000 * nat n"
    using assms(4) by auto
  have e1: "cache w1 ?key = Some (JSON_stringify (JObj doc), ?T)"
    by (simp add: w1)
  have f1: "find (matches_id s) (results w1) = Some doc"
    using d(2) by (simp add: w1)
  have "\<exists>v e. cache w1 ?key = Some (Serialized v, e) \<and> ?T \<le> e"
    using e1 by (simp add: JSON_stringify_def)
  then have "\<exists>v e. cache w' ?key = Some (Serialized v, e) \<and> ?T \<le> e"
    unfolding assms(5) using assms(7) later by (rule serve_keeps_entry)
  then obtain v e where ve: "cache w' ?key = Some (Serialized v, e)" "?T \<le> e"
    by blast
  have "live_entry (now io2) (cache w') ?key = Some (Serialized v)"
    using ve assms(8) by (simp add: live_entry_def)
  with assms(6) have hit: "GET_result env io2 s w' =
      (res_json 200 v, w'\<lparr>calls := calls w' @ [Redis_get ?key]\<rparr>)"
    by (rule GET_result_hit)
  have same: "GET_result env io2 s w' = (r1, w'\<lparr>calls := calls w' @ [Redis_get ?key]\<rparr>)"
    if free: "\<forall>(io, rq) \<in> set rqs. \<forall>b. rq = Post_addResult b \<longrightarrow>
              result_key (get_prop b ''id'') \<noteq> Inr ?key"
  proof -
    have "\<exists>e. cache w1 ?key = Some (JSON_stringify (JObj doc), e) \<and> ?T \<le> e"
      using e1 by simp
    with f1 have "\<exists>e. cache w' ?key = Some (JSON_stringify (JObj doc), e) \<and> ?T \<le> e"
      unfolding assms(5) using assms(7) later free by (rule serve_keeps_value)
    then have "v = toJSON (JObj doc)"
      using ve by (auto simp: JSON_stringify_def)
    then show ?thesis
      using hit by (simp only: res_json_toJSON r1)
  qed
  show ?thesis
    using hit same by (simp add: status_res_json w1)
qed

theorem C5_second_lookup_from_cache_witness:
  "GET_result None ((io_ok 600999 ''65f000000000000000000004'')\<lparr>findOne_error := Some ''topology closed''\<rparr>) ''S1''
     (serve None
        [(io_ok 2000 ''65f000000000000000000002'', Get_result ''S2''),
         (io_ok 3000 ''65f000000000000000000003'',
          Post_addResult [(''id'', JStr ''S3''), (''subjects'', JObj [(''math'', JNum ''10'')])])]
        (snd (GET_result None (io_ok 1000 ''65f000000000000000000001'') ''S1''
          (empty_world\<lparr>results := [[(''_id'', JOid ''65f000000000000000000000''), (''id'', JStr ''S1'')]]\<rparr>)))) =
   (\<lparr>status = 200,
      body = Serialized (JObj [(''_id'', JStr ''65f000000000000000000000''), (''id'', JStr ''S1'')])\<rparr>,
    (serve None
        [(io_ok 2000 ''65f000000000000000000002'', Get_result ''S2''),
         (io_ok 3000 ''65f000000000000000000003'',
          Post_addResult [(''id'', JStr ''S3''), (''subjects'', JObj [(''math'', JNum ''10'')])])]
        (snd (GET_result None (io_ok 1000 ''65f000000000000000000001'') ''S1''
          (empty_world\<lparr>results := [[(''_id'', JOid ''65f000000000000000000000''), (''id'', JStr ''S1'')]]\<rparr>))))
      \<lparr>calls := [Redis_get ''result:S1'', Mongo_findOne ''results'' ''S1'',
        Redis_setEx ''result:S1'' (Finite 600)
          (Serialized (JObj [(''_id'', JStr ''65f000000000000000000000''), (''id'', JStr ''S1'')])),
        Redis_get ''result:S2'', Mongo_findOne ''results'' ''S2'',
        Mongo_insertOne ''results'' [(''id'', JStr ''S3''), (''subjects'', JObj [(''math'', JNum ''10'')])],
        Redis_setEx ''result:S3'' (Finite 600)
          (Serialized (JObj [(''id'', JStr ''S3''), (''subjects'', JObj [(''math'', JNum ''10'')]),
                             (''_id'', JStr ''65f000000000000000000003'')])),
        Redis_get ''result:S1'']\<rparr>)"
proof -
  let ?w = "empty_world\<lparr>results := [[(''_id'', JOid ''65f000000000000000000000''), (''id'', JStr ''S1'')]]\<rparr>"
  let ?io1 = "io_ok 1000 ''65f000000000000000000001''"
  let ?io2 = "(io_ok 600999 ''65f000000000000000000004'')\<lparr>findOne_error := Some ''topology closed''\<rparr>"
  let ?rqs = "[(io_ok 2000 ''65f000000000000000000002'', Get_result ''S2''),
         (io_ok 3000 ''65f000000000000000000003'',
          Post_addResult [(''id'', JStr ''S3''), (''subjects'', JObj [(''math'', JNum ''10'')])])]"
  let ?r1 = "\<lparr>status = 200,
      body = Serialized (JObj [(''_id'', JStr ''65f000000000000000000000''), (''id'', JStr ''S1'')])\<rparr>"
  let ?w1 = "snd (GET_result None ?io1 ''S1'' ?w)"
  let ?w' = "serve None ?rqs ?w1"
  have ttl: "CACHE_TTL None = Finite 600"
    by (simp add: parseInt_eval)
  have first: "GET_result None ?io1 ''S1'' ?w = (?r1, ?w1)"
    by (simp add: handler_eval ttl)
  have "calls (snd (GET_result None ?io2 ''S1'' ?w')) = calls ?w' @ [Redis_get (''result:'' @ ''S1'')]
       \<and> status (fst (GET_result None ?io2 ''S1'' ?w')) = 200
       \<and> Mongo_findOne ''results'' ''S1'' \<in> set (calls ?w1)
       \<and> ((\<forall>(io, rq) \<in> set ?rqs. \<forall>b. rq = Post_addResult b \<longrightarrow>
              result_key (get_prop b ''id'') \<noteq> Inr (''result:'' @ ''S1'')) \<longrightarrow>
            GET_result None ?io2 ''S1'' ?w' =
              (?r1, ?w'\<lparr>calls := calls ?w' @ [Redis_get (''result:'' @ ''S1'')]\<rparr>))"
    by (rule C5_second_lookup_from_cache [OF _ first, where n = 600])
      (simp_all add: io_ok_def empty_world_def live_entry_def ttl)
  then have "GET_result None ?io2 ''S1'' ?w' =
      (?r1, ?w'\<lparr>calls := calls ?w' @ [Redis_get (''result:'' @ ''S1'')]\<rparr>)"
    by (simp add: result_key_def get_prop_def)
  moreover have "calls ?w' = [Redis_get ''result:S1'', Mongo_findOne ''results'' ''S1'',
        Redis_setEx ''result:S1'' (Finite 600)
          (Serialized (JObj [(''_id'', JStr ''65f000000000000000000000''), (''id'', JStr ''S1'')])),
        Redis_get ''result:S2'', Mongo_findOne ''results'' ''S2'',
        Mongo_insertOne ''results'' [(''id'', JStr ''S3''), (''subjects'', JObj [(''math'', JNum ''10'')])],
        Redis_setEx ''result:S3'' (Finite 600)
          (Serialized (JObj [(''id'', JStr ''S3''), (''subjects'', JObj [(''math'', JNum ''10'')]),
                             (''_id'', JStr ''65f000000000000000000003'')]))]"
    by (simp add: handler_eval ttl)
  ultimately show ?thesis
    by simp
qed

section \<open>Result ingestion\<close>

lemma get_prop_assign_id_id: "get_prop (assign_id oid r) ''_id'' = Some (insertedId_of oid r)"
  by (auto simp: assign_id_def insertedId_of_def get_prop_def update_conv'
      split: option.splits js_value.splits)

lemma get_prop_stored_form_id: "get_prop (stored_form oid r) ''_id'' = Some (insertedId_of oid r)"
  by (simp add: stored_form_def get_prop_def)

text \<open>The handler of POST /addResult when both driver calls are carried out.\<close>

lemma POST_addResult_created:
  assumes "truthy (get_prop r ''id'')" and "truthy (get_prop r ''subjects'')"
    and "result_key (get_prop r ''id'') = Inr key"
    and "insertOne_error io = None"
    and "\<forall>d \<in> set (results w). get_prop d ''_id'' \<noteq> Some (insertedId_of (new_oid io) r)"
    and "setEx_error io = None" and "CACHE_TTL env = Finite n" and "0 < n"
  shows "POST_addResult env io r w =
           (res_json 201 (JObj [(''message'', JStr ''Result added''),
                                (''id'', insertedId_of (new_oid io) r)]),
            w\<lparr>cache := (cache w)(key \<mapsto>
                  (JSON_stringify (JObj (assign_id (new_oid io) r)), now io + 1000 * nat n)),
              results := results w @ [stored_form (new_oid io) r],
              calls := calls w @ [Mongo_insertOne ''results'' r,
                  Redis_setEx key (CACHE_TTL env)
                    (JSON_stringify (JObj (assign_id (new_oid io) r)))]\<rparr>)"
  using assms
  by (simp add: POST_addResult_def results_insertOne_def collection_insertOne_def
      redisClient_setEx_def get_prop_assign_id)

lemma POST_addResult_201D:
  assumes "status (fst (POST_addResult env io r w)) = 201"
  shows "\<exists>key n. truthy (get_prop r ''id'') \<and> truthy (get_prop r ''subjects'')
       \<and> result_key (get_prop r ''id'') = Inr key
       \<and> insertOne_error io = None
       \<and> (\<forall>d \<in> set (results w). get_prop d ''_id'' \<noteq> Some (insertedId_of (new_oid io) r))
       \<and> setEx_error io = None \<and> CACHE_TTL env = Finite n \<and> 0 < n"
  using assms
  by (auto simp: POST_addResult_def results_insertOne_def collection_insertOne_def
      redisClient_setEx_def status_res_json get_prop_assign_id Let_def
      split: option.splits sum.splits number.splits if_splits)

lemma POST_addResult_invalid:
  assumes "\<not> truthy (get_prop r ''id'') \<or> \<not> truthy (get_prop r ''subjects'')"
  shows "POST_addResult env io r w = (res_json 400 (error_body ''Invalid result data''), w)"
  using assms by (auto simp: POST_addResult_def)

lemma POST_addStudent_invalid:
  assumes "\<not> truthy (get_prop b ''id'') \<or> \<not> truthy (get_prop b ''name'')"
  shows "POST_addStudent io b w = (res_json 400 (error_body ''Invalid student data''), w)"
  using assms by (auto simp: POST_addStudent_def)

lemma falsy_values:
  "v = JStr [] \<or> v = JNum ''0'' \<or> v = JBool False \<or> v = JNull \<Longrightarrow> \<not> truthy (Some v)"
  by auto

text \<open>
  Claim C4. For every request body in which \<^verbatim>\<open>id\<close> or \<^verbatim>\<open>subjects\<close> is missing,
  POST /addResult answers 400 and leaves the services as they were: no driver call is
  made, so neither the Persistent Store nor the Cache Layer is written.
\<close>

theorem C4_ingest_rejects_missing_field:
  assumes "get_prop resultData ''id'' = None \<or> get_prop resultData ''subjects'' = None"
  shows "POST_addResult env io resultData w =
           (res_json 400 (error_body ''Invalid result data''), w)
       \<and> status (fst (POST_addResult env io resultData w)) = 400
       \<and> results (snd (POST_addResult env io resultData w)) = results w
       \<and> cache (snd (POST_addResult env io resultData w)) = cache w
       \<and> calls (snd (POST_addResult env io resultData w)) = calls w"
proof -
  have "\<not> truthy (get_prop resultData ''id'') \<or> \<not> truthy (get_prop resultData ''subjects'')"
    using assms by auto
  then have "POST_addResult env io resultData w =
      (res_json 400 (error_body ''Invalid result data''), w)"
    by (rule POST_addResult_invalid)
  then show ?thesis
    by (simp add: status_res_json)
qed

theorem C4_ingest_rejects_missing_field_witness:
  "POST_addResult None (io_ok 0 ''65f000000000000000000001'')
     [(''subjects'', JObj [(''math'', JNum ''90'')])] empty_world =
     (\<lparr>status = 400, body = Serialized (JObj [(''error'', JStr ''Invalid result data'')])\<rparr>,
      empty_world)
   \<and> POST_addResult None (io_ok 0 ''65f000000000000000000001'')
     [(''id'', JStr ''S1'')] empty_world =
     (\<lparr>status = 400, body = Serialized (JObj [(''error'', JStr ''Invalid result data'')])\<rparr>,
      empty_world)"
  using
    C4_ingest_rejects_missing_field [of "[(''subjects'', JObj [(''math'', JNum ''90'')])]"
      None "io_ok 0 ''65f000000000000000000001''" empty_world]
    C4_ingest_rejects_missing_field [of "[(''id'', JStr ''S1'')]"
      None "io_ok 0 ''65f000000000000000000001''" empty_world]
  by (simp add: get_prop_def res_json_def error_body_def JSON_stringify_def)

text \<open>
  Claim C10. Both write endpoints validate by truthiness: a body of POST /addResult whose
  \<^verbatim>\<open>id\<close> or \<^verbatim>\<open>subjects\<close>, and a body of POST /addStudent whose \<^verbatim>\<open>id\<close> or \<^verbatim>\<open>name\<close>,
  is present with one of the values empty string, 0, false, null, is answered with the
  same 400 as a body in which the field is absent, and the services are left as they
  were (no driver call is made).
\<close>

theorem C10_validation_by_truthiness:
  assumes "v = JStr [] \<or> v = JNum ''0'' \<or> v = JBool False \<or> v = JNull"
  shows "(get_prop b ''id'' = Some v \<or> get_prop b ''subjects'' = Some v \<longrightarrow>
            POST_addResult env io b w = (res_json 400 (error_body ''Invalid result data''), w))
       \<and> (get_prop a ''id'' = None \<or> get_prop a ''subjects'' = None \<longrightarrow>
            POST_addResult env io a w = (res_json 400 (error_body ''Invalid result data''), w))
       \<and> (get_prop b ''id'' = Some v \<or> get_prop b ''name'' = Some v \<longrightarrow>
            POST_addStudent io b w = (res_json 400 (error_body ''Invalid student data''), w))
       \<and> (get_prop a ''id'' = None \<or> get_prop a ''name'' = None \<longrightarrow>
            POST_addStudent io a w = (res_json 400 (error_body ''Invalid student data''), w))
       \<and> status (res_json 400 (error_body ''Invalid result data'')) = 400
       \<and> status (res_json 400 (error_body ''Invalid student data'')) = 400"
proof -
  have f: "\<not> truthy (Some v)"
    using assms by (rule falsy_values)
  show ?thesis
  proof (intro conjI impI)
    assume "get_prop b ''id'' = Some v \<or> get_prop b ''subjects'' = Some v"
    with f have "\<not> truthy (get_prop b ''id'') \<or> \<not> truthy (get_prop b ''subjects'')"
      by auto
    then show "POST_addResult env io b w = (res_json 400 (error_body ''Invalid result data''), w)"
      by (rule POST_addResult_invalid)
  next
    assume "get_prop a ''id'' = None \<or> get_prop a ''subjects'' = None"
    then have "\<not> truthy (get_prop a ''id'') \<or> \<not> truthy (get_prop a ''subjects'')"
      by auto
    then show "POST_addResult env io a w = (res_json 400 (error_body ''Invalid result data''), w)"
      by (rule POST_addResult_invalid)
  next
    assume "get_prop b ''id'' = Some v \<or> get_prop b ''name'' = Some v"
    with f have "\<not> truthy (get_prop b ''id'') \<or> \<not> truthy (get_prop b ''name'')"
      by auto
    then show "POST_addStudent io b w = (res_json 400 (error_body ''Invalid student data''), w)"
      by (rule POST_addStudent_invalid)
  next
    assume "get_prop a ''id'' = None \<or> get_prop a ''name'' = None"
    then have "\<not> truthy (get_prop a ''id'') \<or> \<not> truthy (get_prop a ''name'')"
      by auto
    then show "POST_addStudent io a w = (res_json 400 (error_body ''Invalid student data''), w)"
      by (rule POST_addStudent_invalid)
  qed (simp_all add: status_res_json)
qed

theorem C10_validation_by_truthiness_witness:
  "POST_addResult None (io_ok 0 ''65f000000000000000000001'')
     [(''id'', JStr ''S1''), (''subjects'', JNum ''0'')] empty_world =
     (\<lparr>status = 400, body = Serialized (JObj [(''error'', JStr ''Invalid result data'')])\<rparr>,
      empty_world)
   \<and> POST_addResult None (io_ok 0 ''65f000000000000000000001'')
     [(''id'', JStr ''S1'')] empty_world =
     (\<lparr>status = 400, body = Serialized (JObj [(''error'', JStr ''Invalid result data'')])\<rparr>,
      empty_world)
   \<and> POST_addStudent (io_ok 0 ''65f000000000000000000001'')
     [(''id'', JStr ''S1''), (''name'', JStr [])] empty_world =
     (\<lparr>status = 400, body = Serialized (JObj [(''error'', JStr ''Invalid student data'')])\<rparr>,
      empty_world)
   \<and> POST_addStudent (io_ok 0 ''65f000000000000000000001'')
     [(''id'', JStr ''S1'')] empty_world =
     (\<lparr>status = 400, body = Serialized (JObj [(''error'', JStr ''Invalid student data'')])\<rparr>,
      empty_world)"
  using
    C10_validation_by_truthiness [of "JNum ''0''" "[(''id'', JStr ''S1''), (''subjects'', JNum ''0'')]"
      None "io_ok 0 ''65f000000000000000000001''" empty_world "[(''id'', JStr ''S1'')]"]
    C10_validation_by_truthiness [of "JStr []" "[(''id'', JStr ''S1''), (''name'', JStr [])]"
      None "io_ok 0 ''65f000000000000000000001''" empty_world "[(''id'', JStr ''S1'')]"]
  by (simp add: get_prop_def res_json_def error_body_def JSON_stringify_def)

text \<open>
  Claim C7, as stated: a successful POST /addResult answers 201 with a body that contains
  the store-assigned identifier alongside the application \<^verbatim>\<open>id\<close> of the result. The body
  of the answer to \<^verbatim>\<open>{id:"S1", subjects:{math:90}}\<close> has the fields \<^verbatim>\<open>message\<close> and
  \<^verbatim>\<open>id\<close>, the latter holding the identifier the store assigned: \<^verbatim>\<open>"S1"\<close> is not a
  value of the body.
\<close>

theorem C7_body_without_application_id:
  "status (fst (POST_addResult None (io_ok 0 ''65f000000000000000000001'')
      [(''id'', JStr ''S1''), (''subjects'', JObj [(''math'', JNum ''90'')])] empty_world)) = 201
   \<and> get_prop [(''id'', JStr ''S1''), (''subjects'', JObj [(''math'', JNum ''90'')])] ''id'' =
       Some (JStr ''S1'')
   \<and> JStr ''S1'' \<notin> set (body_values (fst (POST_addResult None (io_ok 0 ''65f000000000000000000001'')
      [(''id'', JStr ''S1''), (''subjects'', JObj [(''math'', JNum ''90'')])] empty_world)))"
  by (simp add: handler_eval body_values_def parseInt_eval)

text \<open>
  Claim C7, amended. For every valid result \<open>r\<close>, a successful POST /addResult answers 201
  with the body \<^verbatim>\<open>{message:"Result added", id:<insertedId>}\<close>, where \<^verbatim>\<open>insertedId\<close> is
  the \<^verbatim>\<open>_id\<close> of the document added to the collection \<^verbatim>\<open>results\<close>. The body has these
  two fields only, so that the application \<^verbatim>\<open>id\<close> of \<open>r\<close> occurs in it only where it
  coincides with one of these two values. The request is successful when \<^verbatim>\<open>id\<close> and
  \<^verbatim>\<open>subjects\<close> are truthy, the string conversion of \<^verbatim>\<open>id\<close> does not throw, and the
  insert and the cache write are carried out.
\<close>

theorem C7_ingest_created_response:
  "(truthy (get_prop r ''id'') \<and> truthy (get_prop r ''subjects'')
      \<and> result_key (get_prop r ''id'') = Inr key
      \<and> insertOne_error io = None
      \<and> (\<forall>d \<in> set (results w). get_prop d ''_id'' \<noteq> Some (insertedId_of (new_oid io) r))
      \<and> setEx_error io = None \<and> CACHE_TTL env = Finite n \<and> 0 < n \<longrightarrow>
      status (fst (POST_addResult env io r w)) = 201)
   \<and> (status (fst (POST_addResult env io r w)) = 201 \<longrightarrow>
      fst (POST_addResult env io r w) =
        res_json 201 (JObj [(''message'', JStr ''Result added''),
                            (''id'', insertedId_of (new_oid io) r)])
      \<and> body (fst (POST_addResult env io r w)) =
          Serialized (JObj [(''message'', JStr ''Result added''),
                            (''id'', toJSON (insertedId_of (new_oid io) r))])
      \<and> body_values (fst (POST_addResult env io r w)) =
          [JStr ''Result added'', toJSON (insertedId_of (new_oid io) r)]
      \<and> results (snd (POST_addResult env io r w)) = results w @ [stored_form (new_oid io) r]
      \<and> get_prop (stored_form (new_oid io) r) ''_id'' = Some (insertedId_of (new_oid io) r))"
proof (rule conjI)
  show "truthy (get_prop r ''id'') \<and> truthy (get_prop r ''subjects'')
      \<and> result_key (get_prop r ''id'') = Inr key
      \<and> insertOne_error io = None
      \<and> (\<forall>d \<in> set (results w). get_prop d ''_id'' \<noteq> Some (insertedId_of (new_oid io) r))
      \<and> setEx_error io = None \<and> CACHE_TTL env = Finite n \<and> 0 < n \<longrightarrow>
      status (fst (POST_addResult env io r w)) = 201"
    by (simp add: POST_addResult_created [where key = key and n = n] status_res_json)
next
  show "status (fst (POST_addResult env io r w)) = 201 \<longrightarrow>
      fst (POST_addResult env io r w) =
        res_json 201 (JObj [(''message'', JStr ''Result added''),
                            (''id'', insertedId_of (new_oid io) r)])
      \<and> body (fst (POST_addResult env io r w)) =
          Serialized (JObj [(''message'', JStr ''Result added''),
                            (''id'', toJSON (insertedId_of (new_oid io) r))])
      \<and> body_values (fst (POST_addResult env io r w)) =
          [JStr ''Result added'', toJSON (insertedId_of (new_oid io) r)]
      \<and> results (snd (POST_addResult env io r w)) = results w @ [stored_form (new_oid io) r]
      \<and> get_prop (stored_form (new_oid io) r) ''_id'' = Some (insertedId_of (new_oid io) r)"
  proof
    assume ok: "status (fst (POST_addResult env io r w)) = 201"
    from POST_addResult_201D [OF ok] obtain k m where
      h: "truthy (get_prop r ''id'')" "truthy (get_prop r ''subjects'')"
        "result_key (get_prop r ''id'') = Inr k" "insertOne_error io = None"
        "\<forall>d \<in> set (results w). get_prop d ''_id'' \<noteq> Some (insertedId_of (new_oid io) r)"
        "setEx_error io = None" "CACHE_TTL env = Finite m" "0 < m"
      by blast
    have eq: "POST_addResult env io r w =
           (res_json 201 (JObj [(''message'', JStr ''Result added''),
                                (''id'', insertedId_of (new_oid io) r)]),
            w\<lparr>cache := (cache w)(k \<mapsto>
                  (JSON_stringify (JObj (assign_id (new_oid io) r)), now io + 1000 * nat m)),
              results := results w @ [stored_form (new_oid io) r],
              calls := calls w @ [Mongo_insertOne ''results'' r,
                  Redis_setEx k (CACHE_TTL env)
                    (JSON_stringify (JObj (assign_id (new_oid io) r)))]\<rparr>)"
      using h by (rule POST_addResult_created)
    show "fst (POST_addResult env io r w) =
        res_json 201 (JObj [(''message'', JStr ''Result added''),
                            (''id'', insertedId_of (new_oid io) r)])
      \<and> body (fst (POST_addResult env io r w)) =
          Serialized (JObj [(''message'', JStr ''Result added''),
                            (''id'', toJSON (insertedId_of (new_oid io) r))])
      \<and> body_values (fst (POST_addResult env io r w)) =
          [JStr ''Result added'', toJSON (insertedId_of (new_oid io) r)]
      \<and> results (snd (POST_addResult env io r w)) = results w @ [stored_form (new_oid io) r]
      \<and> get_prop (stored_form (new_oid io) r) ''_id'' = Some (insertedId_of (new_oid io) r)"
      unfolding eq
      by (simp add: res_json_def JSON_stringify_def body_values_def get_prop_stored_form_id)
  qed
qed

theorem C7_ingest_created_response_witness:
  "POST_addResult None (io_ok 0 ''65f000000000000000000001'')
      [(''id'', JStr ''S1''), (''subjects'', JObj [(''math'', JNum ''90'')])] empty_world =
   (\<lparr>status = 201,
      body = Serialized (JObj [(''message'', JStr ''Result added''),
                               (''id'', JStr ''65f000000000000000000001'')])\<rparr>,
    empty_world\<lparr>cache := [''result:S1'' \<mapsto>
        (Serialized (JObj [(''id'', JStr ''S1''), (''subjects'', JObj [(''math'', JNum ''90'')]),
                           (''_id'', JStr ''65f000000000000000000001'')]), 600000)],
      results := [[(''_id'', JOid ''65f000000000000000000001''), (''id'', JStr ''S1''),
                   (''subjects'', JObj [(''math'', JNum ''90'')])]],
      calls := [Mongo_insertOne ''results''
                  [(''id'', JStr ''S1''), (''subjects'', JObj [(''math'', JNum ''90'')])],
                Redis_setEx ''result:S1'' (Finite 600)
                  (Serialized (JObj [(''id'', JStr ''S1''), (''subjects'', JObj [(''math'', JNum ''90'')]),
                                     (''_id'', JStr ''65f000000000000000000001'')]))]\<rparr>)"
proof -
  let ?io = "io_ok 0 ''65f000000000000000000001''"
  let ?r = "[(''id'', JStr ''S1''), (''subjects'', JObj [(''math'', JNum ''90'')])]"
  have ttl: "CACHE_TTL None = Finite 600"
    by (simp add: parseInt_eval)
  have ok: "status (fst (POST_addResult None ?io ?r empty_world)) = 201"
    using C7_ingest_created_response [where env = None and io = ?io and r = ?r
        and w = empty_world and key = "''result:S1''" and n = 600]
    by (simp add: get_prop_def result_key_def io_ok_def empty_world_def ttl)
  then have "fst (POST_addResult None ?io ?r empty_world) =
      res_json 201 (JObj [(''message'', JStr ''Result added''), (''id'', insertedId_of (new_oid ?io) ?r)])
    \<and> results (snd (POST_addResult None ?io ?r empty_world)) =
        results empty_world @ [stored_form (new_oid ?io) ?r]"
    using C7_ingest_created_response [where env = None and io = ?io and r = ?r
        and w = empty_world and key = "''result:S1''" and n = 600] by blast
  then show ?thesis
    by (simp add: handler_eval ttl)
qed

text \<open>
  Claim C2, as stated: for a valid result \<open>r\<close>, POST /addResult followed at once by
  GET /result/:id returns a value equal to \<open>r\<close>. For \<^verbatim>\<open>{id:"S1", subjects:{math:90}}\<close>
  the lookup does not return that object: the MongoDB driver has added the \<^verbatim>\<open>_id\<close> it
  generated to the object before the handler serialised it into the cache. And the body
  \<^verbatim>\<open>{id:"S2", subjects:0}\<close>, which has both fields, is answered 400, and the lookup 404.
\<close>

theorem C2_lookup_differs_from_ingested:
  "fst (GET_result None (io_ok 1 ''65f000000000000000000002'') ''S1''
     (snd (POST_addResult None (io_ok 0 ''65f000000000000000000001'')
        [(''id'', JStr ''S1''), (''subjects'', JObj [(''math'', JNum ''90'')])] empty_world)))
   \<noteq> res_json 200 (JObj [(''id'', JStr ''S1''), (''subjects'', JObj [(''math'', JNum ''90'')])])
   \<and> status (fst (POST_addResult None (io_ok 0 ''65f000000000000000000001'')
        [(''id'', JStr ''S2''), (''subjects'', JNum ''0'')] empty_world)) = 400
   \<and> status (fst (GET_result None (io_ok 1 ''65f000000000000000000002'') ''S2''
     (snd (POST_addResult None (io_ok 0 ''65f000000000000000000001'')
        [(''id'', JStr ''S2''), (''subjects'', JNum ''0'')] empty_world)))) = 404"
  by (simp add: handler_eval parseInt_eval)

text \<open>
  Claim C2, amended. For every body \<open>r\<close> whose \<^verbatim>\<open>id\<close> and \<^verbatim>\<open>subjects\<close> are truthy and
  whose \<^verbatim>\<open>id\<close> the template literal converts to a string \<open>k\<close> (the \<^verbatim>\<open>id\<close> itself when it
  is a string), when the insert and the cache write of POST /addResult are carried out,
  the request is answered 201 and its last driver call writes the cache under
  \<^verbatim>\<open>result:\<close>\<open>k\<close>, the key that GET /result/:id reads for \<open>k\<close>. A lookup of \<open>k\<close> before
  the entry expires is answered 200 from the cache, with the serialization of \<open>r\<close> as
  the driver left it: the fields of \<open>r\<close> other than \<^verbatim>\<open>_id\<close> as they were, and \<^verbatim>\<open>_id\<close> the
  identifier of the stored document. When \<open>r\<close> brings an \<^verbatim>\<open>_id\<close> of its own, that is \<open>r\<close>
  itself.
\<close>

theorem C2_ingest_then_lookup:
  assumes "get_prop r ''id'' = Some i" and "truthy (Some i)"
    and "ToString i = Inr k"
    and "truthy (get_prop r ''subjects'')"
    and "insertOne_error io1 = None"
    and "\<forall>d \<in> set (results w). get_prop d ''_id'' \<noteq> Some (insertedId_of (new_oid io1) r)"
    and "setEx_error io1 = None" and "CACHE_TTL env = Finite n" and "0 < n"
    and "get_error io2 = None" and "now io2 < now io1 + 1000 * nat n"
    and "w1 = snd (POST_addResult env io1 r w)"
  shows "status (fst (POST_addResult env io1 r w)) = 201
       \<and> last (calls w1) =
           Redis_setEx (''result:'' @ k) (CACHE_TTL env)
             (JSON_stringify (JObj (assign_id (new_oid io1) r)))
       \<and> GET_result env io2 k w1 =
           (res_json 200 (JObj (assign_id (new_oid io1) r)),
            w1\<lparr>calls := calls w1 @ [Redis_get (''result:'' @ k)]\<rparr>)
       \<and> (\<forall>f. f \<noteq> ''_id'' \<longrightarrow> get_prop (assign_id (new_oid io1) r) f = get_prop r f)
       \<and> get_prop (assign_id (new_oid io1) r) ''_id'' = Some (insertedId_of (new_oid io1) r)
       \<and> (get_prop r ''_id'' \<noteq> None \<and> get_prop r ''_id'' \<noteq> Some JNull \<longrightarrow>
            assign_id (new_oid io1) r = r)"
proof -
  let ?key = "''result:'' @ k"
  let ?r' = "assign_id (new_oid io1) r"
  have key: "result_key (get_prop r ''id'') = Inr ?key"
    using assms(1,3) by (simp add: result_key_def)
  have eq: "POST_addResult env io1 r w =
           (res_json 201 (JObj [(''message'', JStr ''Result added''),
                                (''id'', insertedId_of (new_oid io1) r)]),
            w\<lparr>cache := (cache w)(?key \<mapsto>
                  (JSON_stringify (JObj ?r'), now io1 + 1000 * nat n)),
              results := results w @ [stored_form (new_oid io1) r],
              calls := calls w @ [Mongo_insertOne ''results'' r,
                  Redis_setEx ?key (CACHE_TTL env) (JSON_stringify (JObj ?r'))]\<rparr>)"
    using assms(1,2,4-9) key by (intro POST_addResult_created) simp_all
  have w1: "w1 = w\<lparr>cache := (cache w)(?key \<mapsto>
                  (JSON_stringify (JObj ?r'), now io1 + 1000 * nat n)),
              results := results w @ [stored_form (new_oid io1) r],
              calls := calls w @ [Mongo_insertOne ''results'' r,
                  Redis_setEx ?key (CACHE_TTL env) (JSON_stringify (JObj ?r'))]\<rparr>"
    using assms(12) eq by simp
  have created: "status (fst (POST_addResult env io1 r w)) = 201"
    unfolding eq by (simp add: status_res_json)
  have written: "last (calls w1) = Redis_setEx ?key (CACHE_TTL env) (JSON_stringify (JObj ?r'))"
    by (simp add: w1)
  have "live_entry (now io2) (cache w1) ?key = Some (Serialized (toJSON (JObj ?r')))"
    using assms(11) by (simp add: w1 live_entry_def JSON_stringify_def)
  with assms(10) have "GET_result env io2 k w1 =
      (res_json 200 (toJSON (JObj ?r')), w1\<lparr>calls := calls w1 @ [Redis_get ?key]\<rparr>)"
    by (rule GET_result_hit)
  then have lookup: "GET_result env io2 k w1 =
      (res_json 200 (JObj ?r'), w1\<lparr>calls := calls w1 @ [Redis_get ?key]\<rparr>)"
    by (simp only: res_json_toJSON)
  have own: "get_prop r ''_id'' \<noteq> None \<and> get_prop r ''_id'' \<noteq> Some JNull \<longrightarrow> ?r' = r"
    by (simp add: assign_id_def)
  show ?thesis
    using created written lookup own
    by (simp add: get_prop_assign_id get_prop_assign_id_id)
qed

theorem C2_ingest_then_lookup_witness:
  "GET_result None (io_ok 1 ''65f000000000000000000002'') ''S1''
     (snd (POST_addResult None (io_ok 0 ''65f000000000000000000001'')
        [(''id'', JStr ''S1''), (''subjects'', JObj [(''math'', JNum ''90'')])] empty_world)) =
   (res_json 200 (JObj [(''id'', JStr ''S1''), (''subjects'', JObj [(''math'', JNum ''90'')]),
                        (''_id'', JOid ''65f000000000000000000001'')]),
    (snd (POST_addResult None (io_ok 0 ''65f000000000000000000001'')
        [(''id'', JStr ''S1''), (''subjects'', JObj [(''math'', JNum ''90'')])] empty_world))
      \<lparr>calls := [Mongo_insertOne ''results''
                  [(''id'', JStr ''S1''), (''subjects'', JObj [(''math'', JNum ''90'')])],
                Redis_setEx ''result:S1'' (Finite 600)
                  (Serialized (JObj [(''id'', JStr ''S1''), (''subjects'', JObj [(''math'', JNum ''90'')]),
                                     (''_id'', JStr ''65f000000000000000000001'')])),
                Redis_get ''result:S1'']\<rparr>)
   \<and> GET_result None (io_ok 1 ''65f000000000000000000002'') ''1e+21''
     (snd (POST_addResult None (io_ok 0 ''65f000000000000000000001'')
        [(''id'', JNum ''1e+21''), (''subjects'', JStr ''x''), (''_id'', JStr ''r1'')] empty_world)) =
   (res_json 200 (JObj [(''id'', JNum ''1e+21''), (''subjects'', JStr ''x''), (''_id'', JStr ''r1'')]),
    (snd (POST_addResult None (io_ok 0 ''65f000000000000000000001'')
        [(''id'', JNum ''1e+21''), (''subjects'', JStr ''x''), (''_id'', JStr ''r1'')] empty_world))
      \<lparr>calls := [Mongo_insertOne ''results''
                  [(''id'', JNum ''1e+21''), (''subjects'', JStr ''x''), (''_id'', JStr ''r1'')],
                Redis_setEx ''result:1e+21'' (Finite 600)
                  (Serialized (JObj [(''id'', JNum ''1e+21''), (''subjects'', JStr ''x''),
                                     (''_id'', JStr ''r1'')])),
                Redis_get ''result:1e+21'']\<rparr>)"
proof -
  let ?io1 = "io_ok 0 ''65f000000000000000000001''"
  let ?io2 = "io_ok 1 ''65f000000000000000000002''"
  let ?r = "[(''id'', JStr ''S1''), (''subjects'', JObj [(''math'', JNum ''90'')])]"
  let ?q = "[(''id'', JNum ''1e+21''), (''subjects'', JStr ''x''), (''_id'', JStr ''r1'')]"
  let ?w1 = "snd (POST_addResult None ?io1 ?r empty_world)"
  let ?v1 = "snd (POST_addResult None ?io1 ?q empty_world)"
  have ttl: "CACHE_TTL None = Finite 600"
    by (simp add: parseInt_eval)
  have "GET_result None ?io2 ''S1'' ?w1 =
           (res_json 200 (JObj (assign_id (new_oid ?io1) ?r)),
            ?w1\<lparr>calls := calls ?w1 @ [Redis_get (''result:'' @ ''S1'')]\<rparr>)"
    using C2_ingest_then_lookup [where r = ?r and i = "JStr ''S1''" and k = "''S1''"
        and ?io1.0 = ?io1 and w = empty_world and env = None and n = 600 and ?io2.0 = ?io2
        and ?w1.0 = ?w1]
    by (simp add: get_prop_def io_ok_def empty_world_def ttl)
  moreover have "calls ?w1 = [Mongo_insertOne ''results'' ?r,
                Redis_setEx ''result:S1'' (Finite 600)
                  (Serialized (JObj [(''id'', JStr ''S1''), (''subjects'', JObj [(''math'', JNum ''90'')]),
                                     (''_id'', JStr ''65f000000000000000000001'')]))]"
    by (simp add: handler_eval ttl)
  moreover have "GET_result None ?io2 ''1e+21'' ?v1 =
           (res_json 200 (JObj (assign_id (new_oid ?io1) ?q)),
            ?v1\<lparr>calls := calls ?v1 @ [Redis_get (''result:'' @ ''1e+21'')]\<rparr>)"
    using C2_ingest_then_lookup [where r = ?q and i = "JNum ''1e+21''" and k = "''1e+21''"
        and ?io1.0 = ?io1 and w = empty_world and env = None and n = 600 and ?io2.0 = ?io2
        and ?w1.0 = ?v1]
    by (simp add: get_prop_def io_ok_def empty_world_def ttl)
  moreover have "calls ?v1 = [Mongo_insertOne ''results'' ?q,
                Redis_setEx ''result:1e+21'' (Finite 600)
                  (Serialized (JObj [(''id'', JNum ''1e+21''), (''subjects'', JStr ''x''),
                                     (''_id'', JStr ''r1'')]))]"
    by (simp add: handler_eval ttl)
  ultimately show ?thesis
    by (simp add: assign_id_def get_prop_def io_ok_def)
qed

section \<open>Student directory\<close>

text \<open>
  Claim C8, as stated: POST /addStudent inserts the document and answers 201 whenever
  \<^verbatim>\<open>id\<close> and \<^verbatim>\<open>name\<close> are both present. The body \<^verbatim>\<open>{id:"S1", name:""}\<close> has both
  fields, and is answered 400 with nothing inserted.
\<close>

theorem C8_present_empty_name_rejected:
  "get_prop [(''id'', JStr ''S1''), (''name'', JStr [])] ''id'' \<noteq> None
   \<and> get_prop [(''id'', JStr ''S1''), (''name'', JStr [])] ''name'' \<noteq> None
   \<and> status (fst (POST_addStudent (io_ok 0 ''65f000000000000000000001'')
        [(''id'', JStr ''S1''), (''name'', JStr [])] empty_world)) = 400
   \<and> students (snd (POST_addStudent (io_ok 0 ''65f000000000000000000001'')
        [(''id'', JStr ''S1''), (''name'', JStr [])] empty_world)) = []"
  by (simp add: handler_eval)

text \<open>
  Claim C8, amended. POST /addStudent answers 400 with the body
  \<^verbatim>\<open>{error:"Invalid student data"}\<close> when \<^verbatim>\<open>id\<close> or \<^verbatim>\<open>name\<close> is missing or falsy, in
  particular for the empty body. When both are truthy and the insert is carried out, the
  document is appended to the collection \<^verbatim>\<open>students\<close> and the answer is 201, whatever
  the \<^verbatim>\<open>id\<close> of the documents already stored: there is no check against them, so a second
  student with a stored \<^verbatim>\<open>id\<close> is accepted.
\<close>

theorem C8_add_student:
  "(\<not> truthy (get_prop b ''id'') \<or> \<not> truthy (get_prop b ''name'') \<longrightarrow>
      POST_addStudent io b w = (res_json 400 (error_body ''Invalid student data''), w))
   \<and> POST_addStudent io [] w = (res_json 400 (error_body ''Invalid student data''), w)
   \<and> (truthy (get_prop b ''id'') \<and> truthy (get_prop b ''name'')
        \<and> insertOne_error io = None
        \<and> (\<forall>d \<in> set (students w). get_prop d ''_id'' \<noteq> Some (insertedId_of (new_oid io) b)) \<longrightarrow>
      POST_addStudent io b w =
        (res_json 201 (JObj [(''message'', JStr ''Student added''),
                             (''id'', insertedId_of (new_oid io) b)]),
         w\<lparr>students := students w @ [stored_form (new_oid io) b],
           calls := calls w @ [Mongo_insertOne ''students'' b]\<rparr>))
   \<and> status (res_json 400 (error_body ''Invalid student data'')) = 400
   \<and> body (res_json 400 (error_body ''Invalid student data'')) =
        Serialized (JObj [(''error'', JStr ''Invalid student data'')])"
proof (intro conjI impI)
  assume "\<not> truthy (get_prop b ''id'') \<or> \<not> truthy (get_prop b ''name'')"
  then show "POST_addStudent io b w = (res_json 400 (error_body ''Invalid student data''), w)"
    by (rule POST_addStudent_invalid)
next
  show "POST_addStudent io [] w = (res_json 400 (error_body ''Invalid student data''), w)"
    by (simp add: POST_addStudent_invalid get_prop_def)
next
  assume "truthy (get_prop b ''id'') \<and> truthy (get_prop b ''name'')
        \<and> insertOne_error io = None
        \<and> (\<forall>d \<in> set (students w). get_prop d ''_id'' \<noteq> Some (insertedId_of (new_oid io) b))"
  then show "POST_addStudent io b w =
        (res_json 201 (JObj [(''message'', JStr ''Student added''),
                             (''id'', insertedId_of (new_oid io) b)]),
         w\<lparr>students := students w @ [stored_form (new_oid io) b],
           calls := calls w @ [Mongo_insertOne ''students'' b]\<rparr>)"
    by (simp add: POST_addStudent_def students_insertOne_def collection_insertOne_def)
qed (simp_all add: res_json_def error_body_def JSON_stringify_def)

theorem C8_add_student_witness:
  "POST_addStudent (io_ok 0 ''65f000000000000000000001'') [] empty_world =
     (\<lparr>status = 400, body = Serialized (JObj [(''error'', JStr ''Invalid student data'')])\<rparr>,
      empty_world)
   \<and> POST_addStudent (io_ok 0 ''65f000000000000000000001'')
       [(''id'', JStr ''S1''), (''name'', JStr ''Bob'')]
       (empty_world\<lparr>students := [[(''_id'', JOid ''65f000000000000000000000''),
                                   (''id'', JStr ''S1''), (''name'', JStr ''Alice'')]]\<rparr>) =
     (\<lparr>status = 201,
        body = Serialized (JObj [(''message'', JStr ''Student added''),
                                 (''id'', JStr ''65f000000000000000000001'')])\<rparr>,
      empty_world\<lparr>students :=
          [[(''_id'', JOid ''65f000000000000000000000''), (''id'', JStr ''S1''), (''name'', JStr ''Alice'')],
           [(''_id'', JOid ''65f000000000000000000001''), (''id'', JStr ''S1''), (''name'', JStr ''Bob'')]],
        calls := [Mongo_insertOne ''students'' [(''id'', JStr ''S1''), (''name'', JStr ''Bob'')]]\<rparr>)"
  using
    C8_add_student [of "[]" "io_ok 0 ''65f000000000000000000001''" empty_world]
    C8_add_student [of "[(''id'', JStr ''S1''), (''name'', JStr ''Bob'')]"
      "io_ok 0 ''65f000000000000000000001''"
      "empty_world\<lparr>students := [[(''_id'', JOid ''65f000000000000000000000''),
                                   (''id'', JStr ''S1''), (''name'', JStr ''Alice'')]]\<rparr>"]
  by (simp add: get_prop_def io_ok_def empty_world_def insertedId_of_def stored_form_def
      res_json_def error_body_def JSON_stringify_def)

section \<open>Cache TTL\<close>

text \<open>
  Claim C9, as stated: the TTL used for every cache write is a positive integer. With
  \<^verbatim>\<open>CACHE_TTL=-5\<close> in the environment, \<^verbatim>\<open>parseInt\<close> yields \<open>-5\<close>, which is truthy, and the
  TTL is \<open>-5\<close>.
\<close>

theorem C9_negative_ttl_kept:
  "CACHE_TTL (Some ''-5'') = Finite (- 5) \<and> \<not> (0::int) < - 5"
  by (simp add: parseInt_eval)

text \<open>
  Claim C9, amended. The TTL is never zero (nor NaN): it is 600 when the variable
  \<^verbatim>\<open>CACHE_TTL\<close> is unset, has no leading digits, or parses to 0; any other value is used
  as \<^verbatim>\<open>parseInt\<close> returns it, a negative one included. Every cache write that the two
  handlers issue passes this TTL.
\<close>

theorem C9_cache_ttl:
  "CACHE_TTL env \<noteq> Finite 0 \<and> CACHE_TTL env \<noteq> NaN
   \<and> (parseInt env = NaN \<or> parseInt env = Finite 0 \<longrightarrow> CACHE_TTL env = Finite 600)
   \<and> (parseInt env \<noteq> NaN \<and> parseInt env \<noteq> Finite 0 \<longrightarrow> CACHE_TTL env = parseInt env)
   \<and> parseInt None = NaN
   \<and> (Redis_setEx k t v \<in> set (calls (snd (GET_result env io s w))) \<longrightarrow>
        Redis_setEx k t v \<in> set (calls w) \<or> t = CACHE_TTL env)
   \<and> (Redis_setEx k t v \<in> set (calls (snd (POST_addResult env io r w))) \<longrightarrow>
        Redis_setEx k t v \<in> set (calls w) \<or> t = CACHE_TTL env)"
proof (intro conjI impI)
  show "CACHE_TTL env \<noteq> Finite 0"
    by (simp add: CACHE_TTL_def split: number.splits)
  show "CACHE_TTL env \<noteq> NaN"
    by (simp add: CACHE_TTL_def split: number.splits)
  show "parseInt None = NaN"
    by (simp add: parseInt_eval)
next
  assume "parseInt env = NaN \<or> parseInt env = Finite 0"
  then show "CACHE_TTL env = Finite 600"
    by (auto simp: CACHE_TTL_def)
next
  assume "parseInt env \<noteq> NaN \<and> parseInt env \<noteq> Finite 0"
  then show "CACHE_TTL env = parseInt env"
    by (simp add: CACHE_TTL_def split: number.splits)
next
  assume "Redis_setEx k t v \<in> set (calls (snd (GET_result env io s w)))"
  then show "Redis_setEx k t v \<in> set (calls w) \<or> t = CACHE_TTL env"
    by (rule GET_result_setEx)
next
  assume "Redis_setEx k t v \<in> set (calls (snd (POST_addResult env io r w)))"
  then show "Redis_setEx k t v \<in> set (calls w) \<or> t = CACHE_TTL env"
    by (rule POST_addResult_setEx)
qed

theorem C9_cache_ttl_witness:
  "CACHE_TTL None = Finite 600 \<and> CACHE_TTL (Some ''ten minutes'') = Finite 600
   \<and> CACHE_TTL (Some ''0'') = Finite 600 \<and> CACHE_TTL (Some ''  120s'') = Finite 120
   \<and> CACHE_TTL (Some ''-5'') = Finite (- 5)
   \<and> CACHE_TTL (Some ''99999999999999999999999'') = Finite 99999999999999991611392"
  using C9_cache_ttl [of None] C9_cache_ttl [of "Some ''ten minutes''"]
    C9_cache_ttl [of "Some ''0''"] C9_cache_ttl [of "Some ''  120s''"]
    C9_cache_ttl [of "Some ''-5''"] C9_cache_ttl [of "Some ''99999999999999999999999''"]
  by (simp add: parseInt_def parseInt_string_def white_bytes_def digit_value_def
      round_to_double_def skip_white.simps bit_length.simps Let_def)

end
